theory Spec2Isabelle
  imports Complex_Main "HOL-Library.Word"
begin

section \<open>JavaScript values\<close>

text \<open>
  The library is dynamically typed: inputs, secrets, configuration fields and envelopes are
  arbitrary JavaScript values. An object is the list of its own properties, in insertion
  order (a JSON array is an object keyed by its indices), and inherits from
  \<open>Object.prototype\<close>; \<open>JBuiltin k\<close> is the built-in value that \<open>Object.prototype\<close>
  holds under the name \<open>k\<close>. Numbers are the finite doubles on which multiplying and
  dividing by 8 is exact, so they are rationals; \<open>JNaN\<close> is the result of arithmetic on
  a value that is not a number.
\<close>

type_synonym byte = "8 word"

datatype jsval =
    JUndefined
  | JNull
  | JBool bool
  | JNum rat
  | JNaN
  | JStr string
  | JObj "(string \<times> jsval) list"
  | JBuiltin string

text \<open>A thrown exception: the constructor's name and the message.\<close>

datatype exn = Exn string string

fun exn_text :: "exn \<Rightarrow> string" where
  "exn_text (Exn name msg) = name @ '': '' @ msg"

definition Error :: "string \<Rightarrow> exn" where
  "Error msg = Exn ''Error'' msg"

definition TypeError :: "string \<Rightarrow> exn" where
  "TypeError msg = Exn ''TypeError'' msg"

text \<open>\<open>!v\<close> is \<open>\<not> truthy v\<close>; \<open>a || b\<close> is \<open>js_or a b\<close>.\<close>

fun truthy :: "jsval \<Rightarrow> bool" where
  "truthy JUndefined = False"
| "truthy JNull = False"
| "truthy (JBool b) = b"
| "truthy (JNum r) = (r \<noteq> 0)"
| "truthy JNaN = False"
| "truthy (JStr s) = (s \<noteq> [])"
| "truthy (JObj kvs) = True"
| "truthy (JBuiltin k) = True"

definition js_or :: "jsval \<Rightarrow> jsval \<Rightarrow> jsval" where
  "js_or a b = (if truthy a then a else b)"

text \<open>
  \<open>typeof v === 'object'\<close> holds of objects and of \<open>null\<close>; of the built-ins of
  \<open>Object.prototype\<close>, all are functions but the prototype object itself.
\<close>

fun typeof_object :: "jsval \<Rightarrow> bool" where
  "typeof_object (JObj kvs) = True"
| "typeof_object JNull = True"
| "typeof_object (JBuiltin k) = (k = ''__proto__'')"
| "typeof_object v = False"

text \<open>
  The names that every object inherits from \<open>Object.prototype\<close>, and what a read of a
  name that is not an own property resolves to.
\<close>

definition object_prototype_keys :: "string list" where
  "object_prototype_keys =
     [''constructor'', ''toString'', ''toLocaleString'', ''valueOf'', ''hasOwnProperty'',
      ''isPrototypeOf'', ''propertyIsEnumerable'', ''__defineGetter__'', ''__lookupGetter__'',
      ''__defineSetter__'', ''__lookupSetter__'', ''__proto__'']"

definition inherited :: "string \<Rightarrow> jsval" where
  "inherited k = (if k \<in> set object_prototype_keys then JBuiltin k else JUndefined)"

text \<open>
  Property read \<open>v.k\<close>: a TypeError on \<open>undefined\<close> and \<open>null\<close>; on an object, its own
  property, or else what it inherits. The program reads only \<open>iv\<close>, \<open>salt\<close>,
  \<open>value\<close>, \<open>keyLength\<close>, \<open>iterations\<close> and \<open>context\<close>, which no boolean, number,
  string or function has.
\<close>

fun js_get :: "jsval \<Rightarrow> string \<Rightarrow> exn + jsval" where
  "js_get JUndefined k =
     Inl (TypeError (''Cannot read property '' @ [CHR 0x27] @ k @ [CHR 0x27] @ '' of undefined''))"
| "js_get JNull k =
     Inl (TypeError (''Cannot read property '' @ [CHR 0x27] @ k @ [CHR 0x27] @ '' of null''))"
| "js_get (JObj kvs) k = Inr (case map_of kvs k of Some v \<Rightarrow> v | None \<Rightarrow> inherited k)"
| "js_get v k = Inr JUndefined"

text \<open>Assignment \<open>obj[k] = v\<close>: replaces the property in place or appends it.\<close>

fun obj_set :: "(string \<times> jsval) list \<Rightarrow> string \<Rightarrow> jsval \<Rightarrow> (string \<times> jsval) list" where
  "obj_set [] k v = [(k, v)]"
| "obj_set ((k', v') # kvs) k v =
     (if k' = k then (k, v) # kvs else (k', v') # obj_set kvs k v)"

text \<open>
  lodash \<open>_.defaults(object, source)\<close>, as lodash 2 and 3 have it: for every own property
  \<open>k\<close> of the source, in order, \<open>if (typeof object[k] == 'undefined') object[k] = source[k]\<close>.
  The test is a property read, so it sees what the object inherits: a source property
  named as a property of \<open>Object.prototype\<close> is assigned only where the object has an
  own property of that name whose value is \<open>undefined\<close>. A source that is not an object
  has no own properties to assign.
\<close>

fun defaults_props :: "(string \<times> jsval) list \<Rightarrow> (string \<times> jsval) list \<Rightarrow> (string \<times> jsval) list" where
  "defaults_props obj [] = obj"
| "defaults_props obj ((k, v) # src) =
     defaults_props
       (if js_get (JObj obj) k = Inr JUndefined then obj_set obj k v else obj) src"

fun lodash_defaults :: "(string \<times> jsval) list \<Rightarrow> jsval \<Rightarrow> (string \<times> jsval) list" where
  "lodash_defaults obj (JObj src) = defaults_props obj src"
| "lodash_defaults obj v = obj"


section \<open>The platform\<close>

text \<open>
  The primitives of Node's \<open>crypto\<close> module, \<open>Buffer\<close> and \<open>JSON\<close> are not part of the
  program; they are parameters of the model. Each one either returns or throws.
  \<open>pbkdf2\<close> is the asynchronous key derivation: it throws at once, or later calls its
  callback with an error or a key, with \<open>pbkdf2_this\<close> as the callback's receiver.
\<close>

datatype kdf_async = KdfThrows exn | KdfDone "exn + byte list"

record 'c platform =
  pbkdf2Sync :: "jsval \<Rightarrow> byte list \<Rightarrow> jsval \<Rightarrow> jsval \<Rightarrow> exn + byte list"
  pbkdf2 :: "jsval \<Rightarrow> byte list \<Rightarrow> jsval \<Rightarrow> jsval \<Rightarrow> kdf_async"
  pbkdf2_this :: jsval
  createCipheriv :: "string \<Rightarrow> byte list \<Rightarrow> byte list \<Rightarrow> exn + 'c"
  cipher_update :: "'c \<Rightarrow> jsval \<Rightarrow> exn + string \<times> 'c"
  cipher_final :: "'c \<Rightarrow> exn + string"
  createDecipheriv :: "string \<Rightarrow> byte list \<Rightarrow> byte list \<Rightarrow> exn + 'c"
  decipher_update :: "'c \<Rightarrow> jsval \<Rightarrow> exn + string \<times> 'c"
  decipher_final :: "'c \<Rightarrow> exn + string"
  toString_base64 :: "byte list \<Rightarrow> string"
  Buffer_base64 :: "jsval \<Rightarrow> exn + byte list"
  JSON_parse :: "jsval \<Rightarrow> exn + jsval"
  coerce_number :: "jsval \<Rightarrow> jsval"

text \<open>
  \<open>ToNumber\<close>, with the conversion of strings and objects left to the platform, and the
  two arithmetic operations of the program.
\<close>

fun to_number :: "'c platform \<Rightarrow> jsval \<Rightarrow> jsval" where
  "to_number P (JNum r) = JNum r"
| "to_number P JNaN = JNaN"
| "to_number P JUndefined = JNaN"
| "to_number P JNull = JNum 0"
| "to_number P (JBool b) = JNum (if b then 1 else 0)"
| "to_number P v = coerce_number P v"

definition js_mul :: "'c platform \<Rightarrow> jsval \<Rightarrow> rat \<Rightarrow> jsval" where
  "js_mul P a n = (case to_number P a of JNum r \<Rightarrow> JNum (r * n) | _ \<Rightarrow> JNaN)"

definition js_div :: "'c platform \<Rightarrow> jsval \<Rightarrow> rat \<Rightarrow> jsval" where
  "js_div P a n = (case to_number P a of JNum r \<Rightarrow> JNum (r / n) | _ \<Rightarrow> JNaN)"

text \<open>
  The world outside the program: the random source (a stream of bytes and the number
  already drawn) and the log of the primitives invoked so far, with their arguments.
\<close>

datatype event =
    EvRandomBytes jsval
  | EvPbkdf2 jsval "byte list" jsval jsval
  | EvCreateCipheriv "byte list" "byte list"
  | EvCreateDecipheriv "byte list" "byte list"

record world =
  rng :: "nat \<Rightarrow> byte"
  drawn :: nat
  trace :: "event list"

definition log_event :: "event \<Rightarrow> world \<Rightarrow> world" where
  "log_event ev w = w\<lparr>trace := trace w @ [ev]\<rparr>"

text \<open>
  \<open>crypto.randomBytes(size)\<close>: the next \<open>size\<close> bytes of the random source; it throws
  unless \<open>size\<close> is a non-negative integer.
\<close>

definition valid_size :: "jsval \<Rightarrow> nat option" where
  "valid_size v =
     (case v of
        JNum r \<Rightarrow> (if 0 \<le> r \<and> of_int \<lfloor>r\<rfloor> = r then Some (nat \<lfloor>r\<rfloor>) else None)
      | _ \<Rightarrow> None)"

definition randomBytes :: "jsval \<Rightarrow> world \<Rightarrow> (exn + byte list) \<times> world" where
  "randomBytes sz w =
     (let w1 = log_event (EvRandomBytes sz) w in
      case valid_size sz of
        None \<Rightarrow> (Inl (TypeError ''Argument #1 must be number > 0''), w1)
      | Some n \<Rightarrow>
          (Inr (map (rng w1) [drawn w1..<drawn w1 + n]), w1\<lparr>drawn := drawn w1 + n\<rparr>))"


section \<open>The session\<close>

definition CIPHER :: string where "CIPHER = ''aes-256-cbc''"
definition KEY_DERIVATION :: string where "KEY_DERIVATION = ''pbkdf2''"
definition DEFAULT_KEY_LENGTH :: jsval where "DEFAULT_KEY_LENGTH = JNum 256"
definition DEFAULT_ITERATIONS :: jsval where "DEFAULT_ITERATIONS = JNum 64000"

record krypt =
  iterations :: jsval
  keyLength :: jsval
  defaultSecret :: jsval
  context' :: jsval

text \<open>
  The constructor. \<open>config.k\<close> of a truthy \<open>config\<close> that is not an object is
  \<open>undefined\<close>; a falsy \<open>config\<close> is replaced by the empty object.
\<close>

definition config_get :: "jsval \<Rightarrow> string \<Rightarrow> jsval" where
  "config_get config k =
     (case js_get (js_or config (JObj [])) k of Inl e \<Rightarrow> JUndefined | Inr v \<Rightarrow> v)"

definition Krypt :: "jsval \<Rightarrow> krypt" where
  "Krypt config =
     \<lparr> iterations = js_or (config_get config ''iterations'') DEFAULT_ITERATIONS,
       keyLength = js_or (config_get config ''keyLength'') DEFAULT_KEY_LENGTH,
       defaultSecret = config_get config ''secret'',
       context' = js_or (config_get config ''context'') (JObj []) \<rparr>"

definition setSecret :: "jsval \<Rightarrow> krypt \<Rightarrow> krypt" where
  "setSecret secret this = this\<lparr>defaultSecret := secret\<rparr>"

definition setIterations :: "jsval \<Rightarrow> krypt \<Rightarrow> krypt" where
  "setIterations n this = this\<lparr>iterations := n\<rparr>"

definition setKeyLength :: "jsval \<Rightarrow> krypt \<Rightarrow> krypt" where
  "setKeyLength n this = this\<lparr>keyLength := n\<rparr>"

definition setContext :: "jsval \<Rightarrow> krypt \<Rightarrow> krypt" where
  "setContext c this = this\<lparr>context' := c\<rparr>"


section \<open>encrypt\<close>

text \<open>The legacy check of the encrypt path: it assigns to the session's own field.\<close>

definition legacy_keyLength :: "'c platform \<Rightarrow> krypt \<Rightarrow> krypt" where
  "legacy_keyLength P this =
     (if keyLength this = JNum 32 then this\<lparr>keyLength := js_mul P (keyLength this) 8\<rparr>
      else this)"

text \<open>The body of the \<open>try\<close> block of \<open>encrypt\<close>.\<close>

definition encrypt_try ::
  "'c platform \<Rightarrow> krypt \<Rightarrow> jsval \<Rightarrow> jsval \<Rightarrow> byte list \<Rightarrow> byte list \<Rightarrow> world
     \<Rightarrow> (exn + jsval) \<times> world" where
  "encrypt_try P this input secret salt iv w =
     (let klen = js_div P (keyLength this) 8;
          w1 = log_event (EvPbkdf2 secret salt (iterations this) klen) w in
      case pbkdf2Sync P secret salt (iterations this) klen of
        Inl e \<Rightarrow> (Inl e, w1)
      | Inr key \<Rightarrow>
          (let w2 = log_event (EvCreateCipheriv key iv) w1 in
           case createCipheriv P CIPHER key iv of
             Inl e \<Rightarrow> (Inl e, w2)
           | Inr cipher \<Rightarrow>
               (case cipher_update P cipher input of
                  Inl e \<Rightarrow> (Inl e, w2)
                | Inr (encrypted1, cipher1) \<Rightarrow>
                    (case cipher_final P cipher1 of
                       Inl e \<Rightarrow> (Inl e, w2)
                     | Inr encrypted2 \<Rightarrow>
                         (let result =
                            [(''cipher'', JStr CIPHER),
                             (''keyDerivation'', JStr KEY_DERIVATION),
                             (''keyLength'', keyLength this),
                             (''iterations'', iterations this),
                             (''iv'', JStr (toString_base64 P iv)),
                             (''salt'', JStr (toString_base64 P salt)),
                             (''value'', JStr (encrypted1 @ encrypted2))]
                          in (Inr (JObj (lodash_defaults result (context' this))), w2))))))"

definition encrypt ::
  "'c platform \<Rightarrow> jsval \<Rightarrow> jsval \<Rightarrow> krypt \<times> world \<Rightarrow> (exn + jsval) \<times> krypt \<times> world" where
  "encrypt P input secret0 s =
     (let this0 = fst s; w = snd s in
      if \<not> truthy input then
        (Inl (Error ''You must provide a value to encrypt''), this0, w)
      else
        let secret = js_or secret0 (defaultSecret this0) in
        if \<not> truthy secret then
          (Inl (Error ''A 'secret' is required to encrypt''), this0, w)
        else
          let this = legacy_keyLength P this0 in
          case randomBytes (js_div P (keyLength this) 8) w of
            (Inl e, w1) \<Rightarrow> (Inl e, this, w1)
          | (Inr salt, w1) \<Rightarrow>
              (case randomBytes (JNum 16) w1 of
                 (Inl e, w2) \<Rightarrow> (Inl e, this, w2)
               | (Inr iv, w2) \<Rightarrow>
                   (case encrypt_try P this input secret salt iv w2 of
                      (Inl err, w3) \<Rightarrow>
                        (Inl (Error (''Unable to encrypt value due to: '' @ exn_text err)),
                         this, w3)
                    | (Inr result, w3) \<Rightarrow> (Inr result, this, w3))))"


section \<open>decrypt\<close>

text \<open>
  The validation that \<open>decrypt\<close> and \<open>decryptAsync\<close> both start with, statement for
  statement. A check that fails is \<open>Rejected\<close> with the error the program builds
  (\<open>decrypt\<close> throws it, \<open>decryptAsync\<close> hands it to the callback); the property reads
  on the parsed input are not guarded, and their exception is \<open>Threw\<close>.
\<close>

datatype 'a checked = Rejected exn | Threw exn | Passed 'a

definition decrypt_validate ::
  "'c platform \<Rightarrow> jsval \<Rightarrow> jsval \<Rightarrow> krypt \<Rightarrow> (jsval \<times> jsval) checked" where
  "decrypt_validate P input0 secret0 this =
     (if \<not> truthy input0 then Rejected (Error ''You must provide a value to decrypt'')
      else
        let secret = js_or secret0 (defaultSecret this) in
        if \<not> truthy secret then Rejected (Error ''A 'secret' is required to decrypt'')
        else
          case (if \<not> typeof_object input0 then
                  (case JSON_parse P input0 of
                     Inl err \<Rightarrow> Rejected (Error ''Unable to parse string input as JSON'')
                   | Inr v \<Rightarrow> Passed v)
                else Passed input0) of
            Rejected e \<Rightarrow> Rejected e
          | Threw e \<Rightarrow> Threw e
          | Passed input \<Rightarrow>
              (case js_get input ''iv'' of
                 Inl e \<Rightarrow> Threw e
               | Inr iv \<Rightarrow>
                   (case js_get input ''salt'' of
                      Inl e \<Rightarrow> Threw e
                    | Inr salt \<Rightarrow>
                        (case js_get input ''value'' of
                           Inl e \<Rightarrow> Threw e
                         | Inr val \<Rightarrow>
                             if \<not> truthy iv \<or> \<not> truthy salt \<or> \<not> truthy val then
                               Rejected (Error ''Input must be a valid object with 'iv', 'salt', and 'value' properties'')
                             else Passed (secret, input)))))"

text \<open>
  The local variables \<open>salt\<close>, \<open>iv\<close>, \<open>keyLength\<close> and \<open>iterations\<close>, with the legacy
  check applied to the local \<open>keyLength\<close>. The two buffers are built outside any
  \<open>try\<close> block. The input has passed validation here, so it is neither \<open>null\<close> nor
  \<open>undefined\<close> and its property reads do not throw: \<open>field\<close> is such a read.
\<close>

record decrypt_params =
  p_salt :: "byte list"
  p_iv :: "byte list"
  p_keyLength :: jsval
  p_iterations :: jsval
  p_value :: jsval

definition field :: "jsval \<Rightarrow> string \<Rightarrow> jsval" where
  "field obj k = (case js_get obj k of Inl e \<Rightarrow> JUndefined | Inr v \<Rightarrow> v)"

definition decrypt_locals ::
  "'c platform \<Rightarrow> jsval \<Rightarrow> krypt \<Rightarrow> exn + decrypt_params" where
  "decrypt_locals P input this =
     (case Buffer_base64 P (field input ''salt'') of
        Inl e \<Rightarrow> Inl e
      | Inr salt \<Rightarrow>
          (case Buffer_base64 P (field input ''iv'') of
             Inl e \<Rightarrow> Inl e
           | Inr iv \<Rightarrow>
               (let keyLength0 = js_or (field input ''keyLength'') (keyLength this);
                    iterations0 = js_or (field input ''iterations'') (iterations this);
                    keyLength1 = (if keyLength0 = JNum 32 then js_mul P keyLength0 8
                                  else keyLength0)
                in Inr \<lparr> p_salt = salt, p_iv = iv, p_keyLength = keyLength1,
                         p_iterations = iterations0, p_value = field input ''value'' \<rparr>)))"

text \<open>The cipher part of both \<open>try\<close> blocks of the decrypt path, once the key is there.\<close>

definition decipher_value ::
  "'c platform \<Rightarrow> byte list \<Rightarrow> decrypt_params \<Rightarrow> world \<Rightarrow> (exn + string) \<times> world" where
  "decipher_value P key ps w =
     (let w1 = log_event (EvCreateDecipheriv key (p_iv ps)) w in
      case createDecipheriv P CIPHER key (p_iv ps) of
        Inl e \<Rightarrow> (Inl e, w1)
      | Inr decipher \<Rightarrow>
          (case decipher_update P decipher (p_value ps) of
             Inl e \<Rightarrow> (Inl e, w1)
           | Inr (decrypted1, decipher1) \<Rightarrow>
               (case decipher_final P decipher1 of
                  Inl e \<Rightarrow> (Inl e, w1)
                | Inr decrypted2 \<Rightarrow> (Inr (decrypted1 @ decrypted2), w1))))"

definition decrypt_try ::
  "'c platform \<Rightarrow> jsval \<Rightarrow> decrypt_params \<Rightarrow> world \<Rightarrow> (exn + string) \<times> world" where
  "decrypt_try P secret ps w =
     (let klen = js_div P (p_keyLength ps) 8;
          w1 = log_event (EvPbkdf2 secret (p_salt ps) (p_iterations ps) klen) w in
      case pbkdf2Sync P secret (p_salt ps) (p_iterations ps) klen of
        Inl e \<Rightarrow> (Inl e, w1)
      | Inr key \<Rightarrow> decipher_value P key ps w1)"

definition decrypt ::
  "'c platform \<Rightarrow> jsval \<Rightarrow> jsval \<Rightarrow> krypt \<times> world \<Rightarrow> (exn + string) \<times> krypt \<times> world" where
  "decrypt P input0 secret0 s =
     (let this = fst s; w = snd s in
      case decrypt_validate P input0 secret0 this of
        Rejected e \<Rightarrow> (Inl e, this, w)
      | Threw e \<Rightarrow> (Inl e, this, w)
      | Passed (secret, input) \<Rightarrow>
          (case decrypt_locals P input this of
             Inl e \<Rightarrow> (Inl e, this, w)
           | Inr ps \<Rightarrow>
               (case decrypt_try P secret ps w of
                  (Inl err, w1) \<Rightarrow>
                    (Inl (Error (''Unable to decrypt value due to: '' @ exn_text err)), this, w1)
                | (Inr decrypted, w1) \<Rightarrow> (Inr decrypted, this, w1))))"


section \<open>encryptAsync and decryptAsync\<close>

text \<open>
  A callback invocation is \<open>cb(err)\<close> or \<open>cb(null, result)\<close>. The caller's callback
  either returns (\<open>None\<close>) or throws. A phase of execution (the initiating call, or
  the run of the key-derivation callback on the event loop) is described by the callback
  invocations it made, in order, and the exception that left it uncaught, if any.
\<close>

datatype 'a cb_call = CbErr exn | CbOk 'a

type_synonym 'a callback = "'a cb_call \<Rightarrow> exn option"

record 'a phase =
  calls :: "'a cb_call list"
  thrown :: "exn option"

definition invoke :: "'a callback \<Rightarrow> 'a cb_call \<Rightarrow> 'a phase" where
  "invoke cb c = \<lparr> calls = [c], thrown = cb c \<rparr>"

definition throws :: "exn \<Rightarrow> 'a phase" where
  "throws e = \<lparr> calls = [], thrown = Some e \<rparr>"

definition returns :: "'a phase" where
  "returns = \<lparr> calls = [], thrown = None \<rparr>"

text \<open>
  What the function passed to \<open>crypto.pbkdf2\<close> has captured when \<open>encryptAsync\<close>
  returns, together with the outcome the platform will deliver to it.
\<close>

record encrypt_pending =
  e_outcome :: "exn + byte list"
  e_input :: jsval
  e_salt :: "byte list"
  e_iv :: "byte list"

definition encryptAsync ::
  "'c platform \<Rightarrow> jsval callback \<Rightarrow> jsval \<Rightarrow> jsval \<Rightarrow> krypt \<times> world
     \<Rightarrow> jsval phase \<times> encrypt_pending option \<times> krypt \<times> world" where
  "encryptAsync P cb input secret0 s =
     (let this0 = fst s; w = snd s in
      if \<not> truthy input then
        (invoke cb (CbErr (Error ''You must provide a value to encrypt'')), None, this0, w)
      else
        let secret = js_or secret0 (defaultSecret this0) in
        if \<not> truthy secret then
          (invoke cb (CbErr (Error ''A 'secret' is required to encrypt'')), None, this0, w)
        else
          let this = legacy_keyLength P this0 in
          case randomBytes (js_div P (keyLength this) 8) w of
            (Inl e, w1) \<Rightarrow> (throws e, None, this, w1)
          | (Inr salt, w1) \<Rightarrow>
              (case randomBytes (JNum 16) w1 of
                 (Inl e, w2) \<Rightarrow> (throws e, None, this, w2)
               | (Inr iv, w2) \<Rightarrow>
                   (let klen = js_div P (keyLength this) 8;
                        w3 = log_event (EvPbkdf2 secret salt (iterations this) klen) w2 in
                    case pbkdf2 P secret salt (iterations this) klen of
                      KdfThrows e \<Rightarrow> (throws e, None, this, w3)
                    | KdfDone outcome \<Rightarrow>
                        (returns,
                         Some \<lparr> e_outcome = outcome, e_input = input, e_salt = salt, e_iv = iv \<rparr>,
                         this, w3))))"

text \<open>
  The \<open>try\<close> block of the key-derivation callback of \<open>encryptAsync\<close>. The callback is a
  \<open>function\<close> expression in strict-mode code, so its \<open>this\<close> is the receiver the
  platform calls it with: \<open>this.keyLength\<close>, \<open>this.iterations\<close> and \<open>this.context\<close>
  are property reads on \<open>pbkdf2_this P\<close>. The result is the exception raised inside the
  block, if any, and the callback invocations made.
\<close>

definition encryptAsync_try ::
  "'c platform \<Rightarrow> jsval callback \<Rightarrow> encrypt_pending \<Rightarrow> byte list \<Rightarrow> world
     \<Rightarrow> jsval phase \<times> world" where
  "encryptAsync_try P cb pend key w =
     (let w1 = log_event (EvCreateCipheriv key (e_iv pend)) w in
      case createCipheriv P CIPHER key (e_iv pend) of
        Inl e \<Rightarrow> (throws e, w1)
      | Inr cipher \<Rightarrow>
          (case cipher_update P cipher (e_input pend) of
             Inl e \<Rightarrow> (throws e, w1)
           | Inr (encrypted1, cipher1) \<Rightarrow>
               (case cipher_final P cipher1 of
                  Inl e \<Rightarrow> (throws e, w1)
                | Inr encrypted2 \<Rightarrow>
                    (case js_get (pbkdf2_this P) ''keyLength'' of
                       Inl e \<Rightarrow> (throws e, w1)
                     | Inr this_keyLength \<Rightarrow>
                         (case js_get (pbkdf2_this P) ''iterations'' of
                            Inl e \<Rightarrow> (throws e, w1)
                          | Inr this_iterations \<Rightarrow>
                              (let result =
                                 [(''cipher'', JStr CIPHER),
                                  (''keyDerivation'', JStr KEY_DERIVATION),
                                  (''keyLength'', this_keyLength),
                                  (''iterations'', this_iterations),
                                  (''iv'', JStr (toString_base64 P (e_iv pend))),
                                  (''salt'', JStr (toString_base64 P (e_salt pend))),
                                  (''value'', JStr (encrypted1 @ encrypted2))]
                               in case js_get (pbkdf2_this P) ''context'' of
                                    Inl e \<Rightarrow> (throws e, w1)
                                  | Inr this_context \<Rightarrow>
                                      (invoke cb (CbOk (JObj (lodash_defaults result this_context))),
                                       w1)))))))"

text \<open>The \<open>catch\<close> clause shared by the asynchronous callbacks: one more invocation.\<close>

definition catch_to_callback :: "string \<Rightarrow> 'a callback \<Rightarrow> 'a phase \<Rightarrow> 'a phase" where
  "catch_to_callback prefix cb ph =
     (case thrown ph of
        None \<Rightarrow> ph
      | Some err \<Rightarrow>
          (let c = CbErr (Error (prefix @ exn_text err))
           in \<lparr> calls = calls ph @ [c], thrown = cb c \<rparr>))"

definition encryptAsync_callback ::
  "'c platform \<Rightarrow> jsval callback \<Rightarrow> encrypt_pending \<Rightarrow> world \<Rightarrow> jsval phase \<times> world" where
  "encryptAsync_callback P cb pend w =
     (case e_outcome pend of
        Inl err \<Rightarrow>
          (invoke cb (CbErr (Error (''Unable to encrypt value due to: '' @ exn_text err))), w)
      | Inr key \<Rightarrow>
          (case encryptAsync_try P cb pend key w of
             (ph, w1) \<Rightarrow> (catch_to_callback ''Unable to encrypt value due to: '' cb ph, w1)))"

record decrypt_pending =
  d_outcome :: "exn + byte list"
  d_params :: decrypt_params

definition decryptAsync ::
  "'c platform \<Rightarrow> string callback \<Rightarrow> jsval \<Rightarrow> jsval \<Rightarrow> krypt \<times> world
     \<Rightarrow> string phase \<times> decrypt_pending option \<times> krypt \<times> world" where
  "decryptAsync P cb input0 secret0 s =
     (let this = fst s; w = snd s in
      case decrypt_validate P input0 secret0 this of
        Rejected e \<Rightarrow> (invoke cb (CbErr e), None, this, w)
      | Threw e \<Rightarrow> (throws e, None, this, w)
      | Passed (secret, input) \<Rightarrow>
          (case decrypt_locals P input this of
             Inl e \<Rightarrow> (throws e, None, this, w)
           | Inr ps \<Rightarrow>
               (let klen = js_div P (p_keyLength ps) 8;
                    w1 = log_event (EvPbkdf2 secret (p_salt ps) (p_iterations ps) klen) w in
                case pbkdf2 P secret (p_salt ps) (p_iterations ps) klen of
                  KdfThrows e \<Rightarrow> (throws e, None, this, w1)
                | KdfDone outcome \<Rightarrow>
                    (returns, Some \<lparr> d_outcome = outcome, d_params = ps \<rparr>, this, w1))))"

definition decryptAsync_callback ::
  "'c platform \<Rightarrow> string callback \<Rightarrow> decrypt_pending \<Rightarrow> world \<Rightarrow> string phase \<times> world" where
  "decryptAsync_callback P cb pend w =
     (case d_outcome pend of
        Inl err \<Rightarrow>
          (invoke cb (CbErr (Error (''Unable to decrypt value due to: '' @ exn_text err))), w)
      | Inr key \<Rightarrow>
          (case decipher_value P key (d_params pend) w of
             (Inl e, w1) \<Rightarrow>
               (catch_to_callback ''Unable to decrypt value due to: '' cb (throws e), w1)
           | (Inr decrypted, w1) \<Rightarrow>
               (catch_to_callback ''Unable to decrypt value due to: '' cb
                  (invoke cb (CbOk decrypted)), w1)))"

text \<open>
  A whole asynchronous operation: the initiating call, then, if the key derivation was
  started, the run of its callback. The result keeps the two phases apart.
\<close>

definition encryptAsync_run ::
  "'c platform \<Rightarrow> jsval callback \<Rightarrow> jsval \<Rightarrow> jsval \<Rightarrow> krypt \<times> world
     \<Rightarrow> jsval phase \<times> jsval phase option \<times> krypt \<times> world" where
  "encryptAsync_run P cb input secret s =
     (case encryptAsync P cb input secret s of
        (ph, None, this, w) \<Rightarrow> (ph, None, this, w)
      | (ph, Some pend, this, w) \<Rightarrow>
          (case encryptAsync_callback P cb pend w of
             (later, w1) \<Rightarrow> (ph, Some later, this, w1)))"

definition decryptAsync_run ::
  "'c platform \<Rightarrow> string callback \<Rightarrow> jsval \<Rightarrow> jsval \<Rightarrow> krypt \<times> world
     \<Rightarrow> string phase \<times> string phase option \<times> krypt \<times> world" where
  "decryptAsync_run P cb input secret s =
     (case decryptAsync P cb input secret s of
        (ph, None, this, w) \<Rightarrow> (ph, None, this, w)
      | (ph, Some pend, this, w) \<Rightarrow>
          (case decryptAsync_callback P cb pend w of
             (later, w1) \<Rightarrow> (ph, Some later, this, w1)))"


section \<open>Observations\<close>


text \<open>The seven fields that \<open>encrypt\<close> writes into the envelope itself.\<close>

definition core_fields :: "string list" where
  "core_fields =
     [''cipher'', ''keyDerivation'', ''keyLength'', ''iterations'', ''iv'', ''salt'', ''value'']"

text \<open>
  The callback invocations of an asynchronous operation: those made before the initiating
  call returned, and those made later, from the key-derivation callback.
\<close>

definition sync_calls :: "'a phase \<times> 'a phase option \<times> krypt \<times> world \<Rightarrow> 'a cb_call list" where
  "sync_calls r = calls (fst r)"

definition later_calls :: "'a phase \<times> 'a phase option \<times> krypt \<times> world \<Rightarrow> 'a cb_call list" where
  "later_calls r = (case fst (snd r) of None \<Rightarrow> [] | Some l \<Rightarrow> calls l)"


section \<open>What the claims assume of the platform\<close>

text \<open>
  Base64: decoding what \<open>toString('base64')\<close> produced gives the bytes back, and only the
  empty buffer encodes to the empty string.
\<close>

definition base64_sound :: "'c platform \<Rightarrow> bool" where
  "base64_sound P \<longleftrightarrow>
     (\<forall>bs. Buffer_base64 P (JStr (toString_base64 P bs)) = Inr bs) \<and>
     (\<forall>bs. toString_base64 P bs = [] \<longrightarrow> bs = [])"

text \<open>
  The cipher: \<open>aes-256-cbc\<close> takes a key of 32 bytes, its output is never empty, and
  the decipher under the same key and IV gives the plaintext back.
\<close>

definition cipher_sound :: "'c platform \<Rightarrow> bool" where
  "cipher_sound P \<longleftrightarrow>
     (\<forall>key iv p c e1 c1 e2.
        createCipheriv P CIPHER key iv = Inr c \<longrightarrow>
        cipher_update P c (JStr p) = Inr (e1, c1) \<longrightarrow>
        cipher_final P c1 = Inr e2 \<longrightarrow>
          length key = 32 \<and> e1 @ e2 \<noteq> [] \<and>
          (\<exists>d t1 d1 t2.
             createDecipheriv P CIPHER key iv = Inr d \<and>
             decipher_update P d (JStr (e1 @ e2)) = Inr (t1, d1) \<and>
             decipher_final P d1 = Inr t2 \<and> t1 @ t2 = p))"

text \<open>
  The key derivation: it takes a number of iterations and returns a key of the
  requested number of bytes.
\<close>

definition kdf_sound :: "'c platform \<Rightarrow> bool" where
  "kdf_sound P \<longleftrightarrow>
     (\<forall>secret salt it n key.
        pbkdf2Sync P secret salt it n = Inr key \<longrightarrow>
          n = JNum (of_nat (length key)) \<and> (\<exists>r. it = JNum r))"


text \<open>
  The asynchronous key derivation delivers to its callback the key that the synchronous
  one returns for the same arguments.
\<close>

definition kdf_agree :: "'c platform \<Rightarrow> bool" where
  "kdf_agree P \<longleftrightarrow>
     (\<forall>secret salt it n key.
        pbkdf2Sync P secret salt it n = Inr key \<longrightarrow>
          pbkdf2 P secret salt it n = KdfDone (Inr key))"

text \<open>
  The primitives accept well-formed arguments: the key derivation a non-empty string
  secret, a positive number of iterations and a natural key size; the cipher a key of
  32 bytes with an IV of 16 bytes, and then any string to encrypt.
\<close>

definition crypto_total :: "'c platform \<Rightarrow> bool" where
  "crypto_total P \<longleftrightarrow>
     (\<forall>s salt i n. s \<noteq> [] \<longrightarrow> 0 < i \<longrightarrow>
        (\<exists>key. pbkdf2Sync P (JStr s) salt (JNum (of_nat i)) (JNum (of_nat n)) = Inr key)) \<and>
     (\<forall>key iv. length key = 32 \<longrightarrow> length iv = 16 \<longrightarrow>
        (\<exists>c. createCipheriv P CIPHER key iv = Inr c)) \<and>
     (\<forall>c p. \<exists>e c1. cipher_update P c (JStr p) = Inr (e, c1)) \<and>
     (\<forall>c. \<exists>e. cipher_final P c = Inr e)"


section \<open>A small platform to run the model on\<close>

text \<open>
  Stand-ins for the primitives, for evaluating the program on concrete inputs: a key
  derivation that fills the key with one byte computed from the secret and the salt, a
  cipher that checks the sizes of key and IV and marks the text, the bytes themselves as
  their encoding, and a parser that knows two JSON texts.
\<close>

type_synonym small_cipher = "byte list \<times> byte list \<times> string"

definition small_pbkdf2Sync :: "jsval \<Rightarrow> byte list \<Rightarrow> jsval \<Rightarrow> jsval \<Rightarrow> exn + byte list" where
  "small_pbkdf2Sync secret salt it n =
     (case secret of
        JStr s \<Rightarrow>
          (case it of
             JNum i \<Rightarrow>
               (case valid_size n of
                  Some len \<Rightarrow>
                    (if 0 < i then Inr (replicate len (of_nat (length s + length salt)))
                     else Inl (TypeError ''Bad iterations''))
                | None \<Rightarrow> Inl (TypeError ''Bad key length''))
           | _ \<Rightarrow> Inl (TypeError ''Iterations not a number''))
      | _ \<Rightarrow> Inl (TypeError ''Not a buffer''))"

definition small_pbkdf2 :: "jsval \<Rightarrow> byte list \<Rightarrow> jsval \<Rightarrow> jsval \<Rightarrow> kdf_async" where
  "small_pbkdf2 secret salt it n =
     (case small_pbkdf2Sync secret salt it n of
        Inl e \<Rightarrow> KdfThrows e
      | Inr key \<Rightarrow> KdfDone (Inr key))"

definition small_create :: "string \<Rightarrow> byte list \<Rightarrow> byte list \<Rightarrow> exn + small_cipher" where
  "small_create name key iv =
     (if name = CIPHER \<and> length key = 32 \<and> length iv = 16 then Inr (key, iv, [])
      else Inl (Error ''Invalid key length''))"

definition small_update :: "small_cipher \<Rightarrow> jsval \<Rightarrow> exn + string \<times> small_cipher" where
  "small_update c v =
     (case v of
        JStr s \<Rightarrow> Inr ([], (fst c, fst (snd c), snd (snd c) @ s))
      | _ \<Rightarrow> Inl (TypeError ''Not a string or buffer''))"

definition small_cipher_final :: "small_cipher \<Rightarrow> exn + string" where
  "small_cipher_final c = Inr (CHR ''*'' # snd (snd c))"

definition small_decipher_final :: "small_cipher \<Rightarrow> exn + string" where
  "small_decipher_final c =
     (case snd (snd c) of
        [] \<Rightarrow> Inl (Error ''bad decrypt'')
      | x # rest \<Rightarrow> (if x = CHR ''*'' then Inr rest else Inl (Error ''bad decrypt'')))"

definition small_toString :: "byte list \<Rightarrow> string" where
  "small_toString bs = map (\<lambda>b. char_of (unat b)) bs"

definition small_Buffer :: "jsval \<Rightarrow> exn + byte list" where
  "small_Buffer v =
     (case v of
        JStr s \<Rightarrow> Inr (map (\<lambda>c. of_nat (of_char c)) s)
      | _ \<Rightarrow> Inl (TypeError ''must start with number, buffer, array or string''))"

definition small_JSON_parse :: "jsval \<Rightarrow> exn + jsval" where
  "small_JSON_parse v =
     (if v = JStr ''null'' then Inr JNull
      else if v = JStr ''{}'' then Inr (JObj [])
      else Inl (Exn ''SyntaxError'' ''Unexpected token''))"

definition small_platform :: "jsval \<Rightarrow> small_cipher platform" where
  "small_platform receiver =
     \<lparr> pbkdf2Sync = small_pbkdf2Sync,
       pbkdf2 = small_pbkdf2,
       pbkdf2_this = receiver,
       createCipheriv = small_create,
       cipher_update = small_update,
       cipher_final = small_cipher_final,
       createDecipheriv = small_create,
       decipher_update = small_update,
       decipher_final = small_decipher_final,
       toString_base64 = small_toString,
       Buffer_base64 = small_Buffer,
       JSON_parse = small_JSON_parse,
       coerce_number = (\<lambda>v. JNaN) \<rparr>"

definition world0 :: world where
  "world0 = \<lparr> rng = (\<lambda>i. of_nat (97 + i mod 26)), drawn = 0, trace = [] \<rparr>"

text \<open>A callback that returns normally, whatever it is called with.\<close>

definition quiet :: "'a callback" where
  "quiet c = None"

section \<open>Auxiliary facts\<close>

lemma legacy_keyLength_eq:
  "legacy_keyLength P this =
     (if keyLength this = JNum 32 then this\<lparr>keyLength := JNum 256\<rparr> else this)"
  by (simp add: legacy_keyLength_def js_mul_def)

lemma map_of_obj_set:
  "map_of (obj_set obj k v) k' = (if k' = k then Some v else map_of obj k')"
  by (induction obj) auto

lemma inherited_program_names [simp]:
  "inherited ''iv'' = JUndefined" "inherited ''salt'' = JUndefined"
  "inherited ''value'' = JUndefined" "inherited ''keyLength'' = JUndefined"
  "inherited ''iterations'' = JUndefined" "inherited ''context'' = JUndefined"
  "inherited ''secret'' = JUndefined" "inherited ''cipher'' = JUndefined"
  "inherited ''keyDerivation'' = JUndefined"
  by (simp_all add: inherited_def object_prototype_keys_def)

lemma inherited_cases:
  "inherited k = (if k \<in> set object_prototype_keys then JBuiltin k else JUndefined)"
  by (simp add: inherited_def)

lemma defaults_step_other:
  "k \<noteq> k1 \<Longrightarrow>
     map_of (if js_get (JObj obj) k1 = Inr JUndefined then obj_set obj k1 v1 else obj) k = map_of obj k"
  by (simp add: map_of_obj_set)

lemma defaults_props_keeps:
  "map_of obj k = Some v \<Longrightarrow> v \<noteq> JUndefined \<Longrightarrow> map_of (defaults_props obj src) k = Some v"
proof (induction src arbitrary: obj)
  case Nil
  then show ?case by simp
next
  case (Cons kv src)
  obtain k1 v1 where kv: "kv = (k1, v1)" by (cases kv)
  show ?case
  proof (cases "k1 = k")
    case True
    with Cons.prems kv have "defaults_props obj (kv # src) = defaults_props obj src"
      by simp
    with Cons show ?thesis by simp
  next
    case False
    let ?obj' = "if js_get (JObj obj) k1 = Inr JUndefined then obj_set obj k1 v1 else obj"
    from False Cons.prems(1) have "map_of ?obj' k = Some v"
      by (simp add: map_of_obj_set)
    from Cons.IH [OF this Cons.prems(2)] kv show ?thesis by simp
  qed
qed

lemma defaults_props_other:
  "k \<notin> fst ` set src \<Longrightarrow> map_of (defaults_props obj src) k = map_of obj k"
proof (induction src arbitrary: obj)
  case Nil
  then show ?case by simp
next
  case (Cons kv src)
  obtain k1 v1 where kv: "kv = (k1, v1)" by (cases kv)
  let ?obj' = "if js_get (JObj obj) k1 = Inr JUndefined then obj_set obj k1 v1 else obj"
  from Cons.prems kv have ne: "k \<noteq> k1" and notin: "k \<notin> fst ` set src" by auto
  from ne have "map_of ?obj' k = map_of obj k"
    by (simp add: map_of_obj_set)
  with Cons.IH [OF notin, of ?obj'] kv show ?case by simp
qed

lemma defaults_props_adds:
  "map_of src k = Some v \<Longrightarrow> distinct (map fst src) \<Longrightarrow> map_of obj k = None
     \<Longrightarrow> k \<notin> set object_prototype_keys
     \<Longrightarrow> map_of (defaults_props obj src) k = Some v"
proof (induction src arbitrary: obj)
  case Nil
  then show ?case by simp
next
  case (Cons kv src)
  obtain k1 v1 where kv: "kv = (k1, v1)" by (cases kv)
  let ?obj' = "if js_get (JObj obj) k1 = Inr JUndefined then obj_set obj k1 v1 else obj"
  show ?case
  proof (cases "k1 = k")
    case True
    with Cons.prems kv have v: "v1 = v" and notin: "k \<notin> fst ` set src" by auto
    from True Cons.prems(3,4) v have "map_of ?obj' k = Some v"
      by (simp add: map_of_obj_set inherited_cases)
    with defaults_props_other [OF notin, of ?obj'] kv show ?thesis by simp
  next
    case False
    with Cons.prems kv have 1: "map_of src k = Some v" and 2: "distinct (map fst src)" by auto
    from False Cons.prems(3) have "map_of ?obj' k = None"
      by (simp add: map_of_obj_set)
    from Cons.IH [OF 1 2 this Cons.prems(4)] kv show ?thesis by simp
  qed
qed

text \<open>A context property named as an inherited one is never assigned.\<close>

lemma defaults_props_inherited:
  "k \<in> set object_prototype_keys \<Longrightarrow> map_of obj k = None
     \<Longrightarrow> map_of (defaults_props obj src) k = None"
proof (induction src arbitrary: obj)
  case Nil
  then show ?case by simp
next
  case (Cons kv src)
  obtain k1 v1 where kv: "kv = (k1, v1)" by (cases kv)
  let ?obj' = "if js_get (JObj obj) k1 = Inr JUndefined then obj_set obj k1 v1 else obj"
  have "map_of ?obj' k = None"
  proof (cases "k1 = k")
    case True
    with Cons.prems show ?thesis by (simp add: inherited_cases)
  next
    case False
    with Cons.prems(2) show ?thesis by (simp add: map_of_obj_set)
  qed
  from Cons.IH [OF Cons.prems(1) this] kv show ?case by simp
qed

lemma field_defaults_kept:
  "map_of result k = Some v \<Longrightarrow> v \<noteq> JUndefined
     \<Longrightarrow> js_get (JObj (lodash_defaults result c)) k = Inr v"
  by (cases c) (simp_all add: defaults_props_keeps)

lemma randomBytes_Inr:
  "randomBytes sz w = (Inr bs, w1) \<Longrightarrow>
     \<exists>n. valid_size sz = Some n \<and> length bs = n \<and>
         w1 = (log_event (EvRandomBytes sz) w)\<lparr>drawn := drawn w + n\<rparr>"
  by (auto simp: randomBytes_def Let_def log_event_def split: option.splits)

lemma valid_size_of_nat: "valid_size (JNum (of_nat n)) = Some n"
  by (simp add: valid_size_def)

lemma encrypt_Inr_elim:
  assumes "encrypt P input secret0 (this0, w) = (Inr env, this', w')"
  obtains salt iv key c e1 c1 e2 w1 w2 where
    "truthy input"
    "truthy (js_or secret0 (defaultSecret this0))"
    "this' = legacy_keyLength P this0"
    "randomBytes (js_div P (keyLength this') 8) w = (Inr salt, w1)"
    "randomBytes (JNum 16) w1 = (Inr iv, w2)"
    "pbkdf2Sync P (js_or secret0 (defaultSecret this0)) salt (iterations this')
       (js_div P (keyLength this') 8) = Inr key"
    "createCipheriv P CIPHER key iv = Inr c"
    "cipher_update P c input = Inr (e1, c1)"
    "cipher_final P c1 = Inr e2"
    "env = JObj (lodash_defaults
            [(''cipher'', JStr CIPHER),
             (''keyDerivation'', JStr KEY_DERIVATION),
             (''keyLength'', keyLength this'),
             (''iterations'', iterations this'),
             (''iv'', JStr (toString_base64 P iv)),
             (''salt'', JStr (toString_base64 P salt)),
             (''value'', JStr (e1 @ e2))] (context' this'))"
    "w' = log_event (EvCreateCipheriv key iv)
            (log_event (EvPbkdf2 (js_or secret0 (defaultSecret this0)) salt (iterations this')
               (js_div P (keyLength this') 8)) w2)"
  using assms unfolding encrypt_def encrypt_try_def Let_def
  by (auto split: if_splits sum.splits prod.splits)

lemma js_div_undefined [simp]: "js_div P JUndefined n = JNaN"
  by (simp add: js_div_def)

lemma byte_char_roundtrip: "word_of_nat (of_char (char_of (unat b))) = (b::byte)"
proof -
  have "unat b < 256" using unsigned_less [of b] by simp
  then show ?thesis by simp
qed

lemma small_base64_roundtrip:
  "map (\<lambda>c. word_of_nat (of_char c)) (map (\<lambda>b. char_of (unat b)) bs) = (bs::byte list)"
  by (induction bs) (simp_all only: list.map byte_char_roundtrip)

lemma small_base64_sound: "base64_sound (small_platform r)"
  using small_base64_roundtrip
  unfolding base64_sound_def small_platform_def small_toString_def small_Buffer_def
  by simp

lemma small_cipher_sound: "cipher_sound (small_platform r)"
  unfolding cipher_sound_def small_platform_def small_create_def small_update_def
    small_cipher_final_def small_decipher_final_def
  by (auto split: if_splits)

lemma small_kdf_sound: "kdf_sound (small_platform r)"
  unfolding kdf_sound_def small_platform_def small_pbkdf2Sync_def valid_size_def
  by (auto split: jsval.splits if_splits)

lemma example_envelope:
  "fst (encrypt (small_platform JUndefined) (JStr ''hello world'') (JStr ''correct-horse'')
         (Krypt JUndefined, world0)) =
     Inr (JObj [(''cipher'', JStr ''aes-256-cbc''), (''keyDerivation'', JStr ''pbkdf2''),
                (''keyLength'', JNum 256), (''iterations'', JNum 64000),
                (''iv'', JStr ''ghijklmnopqrstuv''),
                (''salt'', JStr ''abcdefghijklmnopqrstuvwxyzabcdef''),
                (''value'', JStr ''*hello world'')])"
  by code_simp

lemma decrypt_after_encrypt:
  assumes b64: "base64_sound P" and ciph: "cipher_sound P" and kdf: "kdf_sound P"
    and enc: "encrypt P (JStr p) secret (this, w) = (Inr env, this', w')"
  shows "fst (decrypt P env secret (this', wd)) = Inr p"
proof -
  let ?secret = "js_or secret (defaultSecret this)"
  let ?klen = "js_div P (keyLength this') 8"
  from enc obtain salt iv key c e1 c1 e2 w1 w2 where
    sec: "truthy ?secret"
    and this': "this' = legacy_keyLength P this"
    and rsalt: "randomBytes ?klen w = (Inr salt, w1)"
    and riv: "randomBytes (JNum 16) w1 = (Inr iv, w2)"
    and key: "pbkdf2Sync P ?secret salt (iterations this') ?klen = Inr key"
    and cre: "createCipheriv P CIPHER key iv = Inr c"
    and upd: "cipher_update P c (JStr p) = Inr (e1, c1)"
    and fin: "cipher_final P c1 = Inr e2"
    and env: "env = JObj (lodash_defaults
            [(''cipher'', JStr CIPHER),
             (''keyDerivation'', JStr KEY_DERIVATION),
             (''keyLength'', keyLength this'),
             (''iterations'', iterations this'),
             (''iv'', JStr (toString_base64 P iv)),
             (''salt'', JStr (toString_base64 P salt)),
             (''value'', JStr (e1 @ e2))] (context' this'))"
    by (rule encrypt_Inr_elim)
  let ?result = "[(''cipher'', JStr CIPHER),
             (''keyDerivation'', JStr KEY_DERIVATION),
             (''keyLength'', keyLength this'),
             (''iterations'', iterations this'),
             (''iv'', JStr (toString_base64 P iv)),
             (''salt'', JStr (toString_base64 P salt)),
             (''value'', JStr (e1 @ e2))]"
  from ciph cre upd fin obtain d t1 d1 t2 where
    klen32: "length key = 32" and ne: "e1 @ e2 \<noteq> []"
    and dcre: "createDecipheriv P CIPHER key iv = Inr d"
    and dupd: "decipher_update P d (JStr (e1 @ e2)) = Inr (t1, d1)"
    and dfin: "decipher_final P d1 = Inr t2" and plain: "t1 @ t2 = p"
    unfolding cipher_sound_def by blast
  from kdf key klen32 obtain r where klen: "?klen = JNum 32" and it: "iterations this' = JNum r"
    unfolding kdf_sound_def by fastforce
  from klen have kl_def: "keyLength this' \<noteq> JUndefined" by auto
  from klen have kl_32: "keyLength this' \<noteq> JNum 32" by (auto simp: js_div_def)
  from rsalt klen have "length salt = 32"
    by (auto dest!: randomBytes_Inr simp: valid_size_def)
  with b64 have salt_ne: "toString_base64 P salt \<noteq> []"
    unfolding base64_sound_def by auto
  from riv have "length iv = 16"
    by (auto dest!: randomBytes_Inr simp: valid_size_def)
  with b64 have iv_ne: "toString_base64 P iv \<noteq> []"
    unfolding base64_sound_def by auto
  have g_iv: "js_get env ''iv'' = Inr (JStr (toString_base64 P iv))"
    unfolding env by (rule field_defaults_kept) simp_all
  have g_salt: "js_get env ''salt'' = Inr (JStr (toString_base64 P salt))"
    unfolding env by (rule field_defaults_kept) simp_all
  have g_value: "js_get env ''value'' = Inr (JStr (e1 @ e2))"
    unfolding env by (rule field_defaults_kept) simp_all
  have g_kl: "js_get env ''keyLength'' = Inr (keyLength this')"
    unfolding env using kl_def by (intro field_defaults_kept) simp_all
  have g_it: "js_get env ''iterations'' = Inr (iterations this')"
    unfolding env using it by (intro field_defaults_kept) simp_all
  have obj: "truthy env" "typeof_object env"
    unfolding env by simp_all
  have ds: "defaultSecret this' = defaultSecret this"
    unfolding this' by (simp add: legacy_keyLength_eq)
  have val: "decrypt_validate P env secret this' = Passed (?secret, env)"
    using obj sec ds g_iv g_salt g_value iv_ne salt_ne ne
    by (simp add: decrypt_validate_def Let_def)
  have loc: "decrypt_locals P env this' =
      Inr \<lparr> p_salt = salt, p_iv = iv, p_keyLength = keyLength this',
            p_iterations = iterations this', p_value = JStr (e1 @ e2) \<rparr>"
    using b64 g_iv g_salt g_value g_kl g_it kl_32
    by (simp add: decrypt_locals_def field_def Let_def base64_sound_def js_or_def)
  have "\<exists>wz. decrypt_try P ?secret \<lparr> p_salt = salt, p_iv = iv, p_keyLength = keyLength this',
            p_iterations = iterations this', p_value = JStr (e1 @ e2) \<rparr> wd = (Inr p, wz)"
    using key dcre dupd dfin plain
    by (simp add: decrypt_try_def decipher_value_def Let_def)
  with val loc show ?thesis
    by (auto simp: decrypt_def Let_def)
qed


lemma trace_log_event [simp]: "trace (log_event ev w) = trace w @ [ev]"
  by (simp add: log_event_def)









lemma legacy_keyLength_context:
  "legacy_keyLength P (this\<lparr>context' := c\<rparr>) = (legacy_keyLength P this)\<lparr>context' := c\<rparr>"
  by (simp add: legacy_keyLength_eq)

lemma encrypt_Inr_intro:
  assumes "truthy input"
    and "truthy (js_or secret0 (defaultSecret this0))"
    and "this' = legacy_keyLength P this0"
    and "randomBytes (js_div P (keyLength this') 8) w = (Inr salt, w1)"
    and "randomBytes (JNum 16) w1 = (Inr iv, w2)"
    and "pbkdf2Sync P (js_or secret0 (defaultSecret this0)) salt (iterations this')
           (js_div P (keyLength this') 8) = Inr key"
    and "createCipheriv P CIPHER key iv = Inr c"
    and "cipher_update P c input = Inr (e1, c1)"
    and "cipher_final P c1 = Inr e2"
  shows "encrypt P input secret0 (this0, w) =
     (Inr (JObj (lodash_defaults
            [(''cipher'', JStr CIPHER),
             (''keyDerivation'', JStr KEY_DERIVATION),
             (''keyLength'', keyLength this'),
             (''iterations'', iterations this'),
             (''iv'', JStr (toString_base64 P iv)),
             (''salt'', JStr (toString_base64 P salt)),
             (''value'', JStr (e1 @ e2))] (context' this'))),
      this',
      log_event (EvCreateCipheriv key iv)
        (log_event (EvPbkdf2 (js_or secret0 (defaultSecret this0)) salt (iterations this')
           (js_div P (keyLength this') 8)) w2))"
  using assms by (simp add: encrypt_def encrypt_try_def Let_def)

lemma context_merge_core:
  assumes kdf: "kdf_sound P"
    and enc: "encrypt P input secret (this, w) = (Inr env, this', w')"
  shows "\<exists>env0. encrypt P input secret (this\<lparr>context' := JObj []\<rparr>, w)
                  = (Inr env0, this'\<lparr>context' := JObj []\<rparr>, w') \<and>
           (\<forall>k \<in> set core_fields. field env k = field env0 k) \<and>
           field env0 ''cipher'' = JStr ''aes-256-cbc'' \<and>
           field env0 ''keyDerivation'' = JStr ''pbkdf2'' \<and>
           field env0 ''keyLength'' = keyLength this' \<and>
           field env0 ''iterations'' = iterations this'"
proof -
  let ?secret = "js_or secret (defaultSecret this)"
  let ?klen = "js_div P (keyLength this') 8"
  from enc obtain salt iv key c e1 c1 e2 w1 w2 where
    inp: "truthy input" and sec: "truthy ?secret"
    and this': "this' = legacy_keyLength P this"
    and rsalt: "randomBytes ?klen w = (Inr salt, w1)"
    and riv: "randomBytes (JNum 16) w1 = (Inr iv, w2)"
    and key: "pbkdf2Sync P ?secret salt (iterations this') ?klen = Inr key"
    and cre: "createCipheriv P CIPHER key iv = Inr c"
    and upd: "cipher_update P c input = Inr (e1, c1)"
    and fin: "cipher_final P c1 = Inr e2"
    and env: "env = JObj (lodash_defaults
            [(''cipher'', JStr CIPHER),
             (''keyDerivation'', JStr KEY_DERIVATION),
             (''keyLength'', keyLength this'),
             (''iterations'', iterations this'),
             (''iv'', JStr (toString_base64 P iv)),
             (''salt'', JStr (toString_base64 P salt)),
             (''value'', JStr (e1 @ e2))] (context' this'))"
    and w': "w' = log_event (EvCreateCipheriv key iv)
            (log_event (EvPbkdf2 ?secret salt (iterations this') ?klen) w2)"
    by (rule encrypt_Inr_elim)
  let ?result = "[(''cipher'', JStr CIPHER),
             (''keyDerivation'', JStr KEY_DERIVATION),
             (''keyLength'', keyLength this'),
             (''iterations'', iterations this'),
             (''iv'', JStr (toString_base64 P iv)),
             (''salt'', JStr (toString_base64 P salt)),
             (''value'', JStr (e1 @ e2))]"
  let ?s0 = "this\<lparr>context' := JObj []\<rparr>"
  let ?s1 = "this'\<lparr>context' := JObj []\<rparr>"
  have enc0: "encrypt P input secret (?s0, w) = (Inr (JObj ?result), ?s1, w')"
    using inp sec rsalt riv key cre upd fin unfolding w' this'
    by (auto simp: encrypt_def encrypt_try_def Let_def legacy_keyLength_eq split: if_splits)
  from rsalt have kl: "keyLength this' \<noteq> JUndefined"
    by (auto dest!: randomBytes_Inr simp: valid_size_def)
  from kdf key obtain r where it: "iterations this' = JNum r"
    unfolding kdf_sound_def by blast
  have same: "js_get env k = js_get (JObj ?result) k" if "k \<in> set core_fields" for k
  proof -
    from that kl it obtain v where "map_of ?result k = Some v" and "v \<noteq> JUndefined"
      by (auto simp: core_fields_def)
    then have "js_get env k = Inr v"
      unfolding env by (rule field_defaults_kept)
    with \<open>map_of ?result k = Some v\<close> show ?thesis by simp
  qed
  have "\<forall>k \<in> set core_fields. field env k = field (JObj ?result) k"
    using same by (simp add: field_def)
  moreover have "field (JObj ?result) ''cipher'' = JStr ''aes-256-cbc''"
    "field (JObj ?result) ''keyDerivation'' = JStr ''pbkdf2''"
    "field (JObj ?result) ''keyLength'' = keyLength this'"
    "field (JObj ?result) ''iterations'' = iterations this'"
    by (simp_all add: field_def CIPHER_def KEY_DERIVATION_def)
  ultimately show ?thesis using enc0 by blast
qed

lemma context_merge_extra:
  assumes enc: "encrypt P input secret (this, w) = (Inr env, this', w')"
    and ctx: "context' this = JObj ctx" and dist: "distinct (map fst ctx)"
    and k: "map_of ctx k = Some v" "k \<notin> set core_fields" "k \<notin> set object_prototype_keys"
  shows "field env k = v"
proof -
  from enc obtain salt iv e1 e2 where
    this': "this' = legacy_keyLength P this"
    and env: "env = JObj (lodash_defaults
            [(''cipher'', JStr CIPHER),
             (''keyDerivation'', JStr KEY_DERIVATION),
             (''keyLength'', keyLength this'),
             (''iterations'', iterations this'),
             (''iv'', JStr (toString_base64 P iv)),
             (''salt'', JStr (toString_base64 P salt)),
             (''value'', JStr (e1 @ e2))] (context' this'))"
    by (rule encrypt_Inr_elim)
  let ?result = "[(''cipher'', JStr CIPHER),
             (''keyDerivation'', JStr KEY_DERIVATION),
             (''keyLength'', keyLength this'),
             (''iterations'', iterations this'),
             (''iv'', JStr (toString_base64 P iv)),
             (''salt'', JStr (toString_base64 P salt)),
             (''value'', JStr (e1 @ e2))]"
  from this' ctx have c: "context' this' = JObj ctx" by (simp add: legacy_keyLength_eq)
  from k(2) have "map_of ?result k = None" by (simp add: core_fields_def)
  from defaults_props_adds [OF k(1) dist this k(3)] show ?thesis
    unfolding env c by (simp add: field_def)
qed

lemma context_merge_inherited:
  assumes enc: "encrypt P input secret (this, w) = (Inr env, this', w')"
    and k: "k \<in> set object_prototype_keys"
  shows "field env k = JBuiltin k"
proof -
  from enc obtain salt iv e1 e2 where
    env: "env = JObj (lodash_defaults
            [(''cipher'', JStr CIPHER),
             (''keyDerivation'', JStr KEY_DERIVATION),
             (''keyLength'', keyLength this'),
             (''iterations'', iterations this'),
             (''iv'', JStr (toString_base64 P iv)),
             (''salt'', JStr (toString_base64 P salt)),
             (''value'', JStr (e1 @ e2))] (context' this'))"
    by (rule encrypt_Inr_elim)
  let ?result = "[(''cipher'', JStr CIPHER),
             (''keyDerivation'', JStr KEY_DERIVATION),
             (''keyLength'', keyLength this'),
             (''iterations'', iterations this'),
             (''iv'', JStr (toString_base64 P iv)),
             (''salt'', JStr (toString_base64 P salt)),
             (''value'', JStr (e1 @ e2))]"
  from k have none: "map_of ?result k = None"
    by (auto simp: object_prototype_keys_def)
  have "map_of (lodash_defaults ?result (context' this')) k = None"
    using none defaults_props_inherited [OF k none] by (cases "context' this'") simp_all
  with k show ?thesis
    unfolding env by (simp add: field_def inherited_cases)
qed

lemma small_crypto_total: "crypto_total (small_platform r)"
  unfolding crypto_total_def small_platform_def small_pbkdf2Sync_def small_create_def
    small_update_def small_cipher_final_def
  by (simp add: valid_size_of_nat)

lemma Krypt_default:
  "Krypt JUndefined =
     \<lparr> iterations = JNum 64000, keyLength = JNum 256, defaultSecret = JUndefined,
       context' = JObj [] \<rparr>"
  by (simp add: Krypt_def config_get_def js_or_def DEFAULT_KEY_LENGTH_def DEFAULT_ITERATIONS_def)

lemma randomBytes_numeral:
  "\<exists>bs w1. randomBytes (JNum (of_nat n)) w = (Inr bs, w1) \<and> length bs = n"
  by (simp add: randomBytes_def Let_def valid_size_of_nat)


lemma example_envelope_context:
  "fst (encrypt (small_platform JUndefined) (JStr ''hello world'') (JStr ''correct-horse'')
         (setContext (JObj [(''keyLength'', JNum 999), (''owner'', JStr ''alice'')])
            (Krypt JUndefined), world0)) =
     Inr (JObj [(''cipher'', JStr ''aes-256-cbc''), (''keyDerivation'', JStr ''pbkdf2''),
                (''keyLength'', JNum 256), (''iterations'', JNum 64000),
                (''iv'', JStr ''ghijklmnopqrstuv''),
                (''salt'', JStr ''abcdefghijklmnopqrstuvwxyzabcdef''),
                (''value'', JStr ''*hello world''),
                (''owner'', JStr ''alice'')])"
  by code_simp

lemma result_triple: "r = (fst r, fst (snd r), snd (snd r))"
  by simp

lemma js_div_number [simp]: "js_div P (JNum r) n = JNum (r / n)"
  by (simp add: js_div_def)


lemma encryptAsync_cases:
  assumes "encryptAsync P cb input secret (this, w) = (ph, pend, this', w')"
  shows "(\<not> (truthy input \<and> truthy (js_or secret (defaultSecret this))) \<and> pend = None \<and>
            (\<exists>e. ph = invoke cb (CbErr e))) \<or>
         (truthy input \<and> truthy (js_or secret (defaultSecret this)) \<and> pend = None \<and>
            (\<exists>e. ph = throws e)) \<or>
         (truthy input \<and> truthy (js_or secret (defaultSecret this)) \<and> ph = returns \<and>
            (\<exists>p. pend = Some p))"
  using assms unfolding encryptAsync_def Let_def
  by (auto split: if_splits sum.splits prod.splits kdf_async.splits)


lemma encryptAsync_try_unbound:
  "pbkdf2_this P = JUndefined \<or> pbkdf2_this P = JNull \<Longrightarrow>
     \<exists>e w1. encryptAsync_try P cb pend key w = (throws e, w1)"
  by (auto simp: encryptAsync_try_def Let_def split: sum.splits prod.splits)

lemma encryptAsync_callback_unbound:
  assumes "pbkdf2_this P = JUndefined \<or> pbkdf2_this P = JNull"
  shows "\<exists>m w1. encryptAsync_callback P cb pend w =
           (\<lparr> calls = [CbErr (Error (''Unable to encrypt value due to: '' @ m))],
              thrown = cb (CbErr (Error (''Unable to encrypt value due to: '' @ m))) \<rparr>, w1)"
proof (cases "e_outcome pend")
  case (Inl err)
  then show ?thesis
    by (intro exI [of _ "exn_text err"] exI [of _ w])
       (simp add: encryptAsync_callback_def invoke_def)
next
  case (Inr key)
  from encryptAsync_try_unbound [OF assms, of cb pend key w] obtain e w1 where
    "encryptAsync_try P cb pend key w = (throws e, w1)" by blast
  with Inr show ?thesis
    by (intro exI [of _ "exn_text e"] exI [of _ w1])
       (simp add: encryptAsync_callback_def catch_to_callback_def throws_def Let_def)
qed



lemma phase_simps [simp]:
  "calls (invoke cb c) = [c]" "calls (throws e) = []" "calls returns = []"
  "thrown (throws e) = Some e" "thrown returns = None"
  by (simp_all add: invoke_def throws_def returns_def)



lemma example_async_unbound:
  "thrown (fst (encryptAsync_run (small_platform JUndefined) quiet (JStr ''hello world'')
       (JStr ''correct-horse'') (Krypt JUndefined, world0))) = None"
  "later_calls (encryptAsync_run (small_platform JUndefined) quiet (JStr ''hello world'')
       (JStr ''correct-horse'') (Krypt JUndefined, world0)) =
     [CbErr (Error ''Unable to encrypt value due to: TypeError: Cannot read property 'keyLength' of undefined'')]"
  by code_simp+

lemma example_async_object:
  "later_calls (encryptAsync_run (small_platform (JObj [(''ondone'', JNull)])) quiet
       (JStr ''hello world'') (JStr ''correct-horse'') (Krypt JUndefined, world0)) =
     [CbOk (JObj [(''cipher'', JStr ''aes-256-cbc''), (''keyDerivation'', JStr ''pbkdf2''),
                  (''keyLength'', JUndefined), (''iterations'', JUndefined),
                  (''iv'', JStr ''ghijklmnopqrstuv''),
                  (''salt'', JStr ''abcdefghijklmnopqrstuvwxyzabcdef''),
                  (''value'', JStr ''*hello world'')])]"
  by code_simp


text \<open>What does hold of the validation: the checks the code makes, the errors it builds.\<close>

lemma validation_rejections:
  "\<not> truthy input \<Longrightarrow>
     decrypt_validate P input secret this =
       Rejected (Error ''You must provide a value to decrypt'')"
  "truthy input \<Longrightarrow> \<not> truthy (js_or secret (defaultSecret this)) \<Longrightarrow>
     decrypt_validate P input secret this =
       Rejected (Error ''A 'secret' is required to decrypt'')"
  "truthy input \<Longrightarrow> truthy (js_or secret (defaultSecret this)) \<Longrightarrow>
   \<not> typeof_object input \<Longrightarrow> JSON_parse P input = Inl err \<Longrightarrow>
     decrypt_validate P input secret this =
       Rejected (Error ''Unable to parse string input as JSON'')"
  "truthy input \<Longrightarrow> truthy (js_or secret (defaultSecret this)) \<Longrightarrow>
   (if typeof_object input then input = env else JSON_parse P input = Inr env) \<Longrightarrow>
   env \<noteq> JNull \<Longrightarrow> env \<noteq> JUndefined \<Longrightarrow>
   \<not> (truthy (field env ''iv'') \<and> truthy (field env ''salt'') \<and> truthy (field env ''value'')) \<Longrightarrow>
     decrypt_validate P input secret this =
       Rejected (Error ''Input must be a valid object with 'iv', 'salt', and 'value' properties'')"
  by (cases env; auto simp: decrypt_validate_def Let_def field_def split: if_splits)+

lemma validation_before_primitives:
  "\<not> truthy input \<Longrightarrow>
     encrypt P input secret (this, w) =
       (Inl (Error ''You must provide a value to encrypt''), this, w)"
  "truthy input \<Longrightarrow> \<not> truthy (js_or secret (defaultSecret this)) \<Longrightarrow>
     encrypt P input secret (this, w) =
       (Inl (Error ''A 'secret' is required to encrypt''), this, w)"
  "decrypt_validate P input secret this = Rejected e \<Longrightarrow>
     decrypt P input secret (this, w) = (Inl e, this, w)"
  by (simp_all add: encrypt_def decrypt_def Let_def)


lemma encryptAsync_unbound_run:
  assumes recv: "pbkdf2_this P = JUndefined \<or> pbkdf2_this P = JNull"
  shows "(\<forall>c \<in> set (sync_calls (encryptAsync_run P cb input secret (this, w)) @
                   later_calls (encryptAsync_run P cb input secret (this, w))). \<exists>e. c = CbErr e) \<and>
         (truthy input \<longrightarrow> truthy (js_or secret (defaultSecret this)) \<longrightarrow>
          thrown (fst (encryptAsync_run P cb input secret (this, w))) = None \<longrightarrow>
            sync_calls (encryptAsync_run P cb input secret (this, w)) = [] \<and>
            (\<exists>m. later_calls (encryptAsync_run P cb input secret (this, w)) =
               [CbErr (Error (''Unable to encrypt value due to: '' @ m))]))"
proof -
  obtain ph pend this' w' where
    st: "encryptAsync P cb input secret (this, w) = (ph, pend, this', w')"
    by (cases "encryptAsync P cb input secret (this, w)") auto
  from encryptAsync_cases [OF st] show ?thesis
  proof (elim disjE conjE exE)
    fix e assume "pend = None" "ph = invoke cb (CbErr e)"
      "\<not> (truthy input \<and> truthy (js_or secret (defaultSecret this)))"
    with st show ?thesis
      by (auto simp: encryptAsync_run_def sync_calls_def later_calls_def invoke_def)
  next
    fix e assume "pend = None" "ph = throws e"
    with st show ?thesis
      by (simp add: encryptAsync_run_def sync_calls_def later_calls_def throws_def)
  next
    fix p assume p: "pend = Some p" "ph = returns"
    from encryptAsync_callback_unbound [OF recv, of cb p w'] obtain m w1 where
      "encryptAsync_callback P cb p w' =
           (\<lparr> calls = [CbErr (Error (''Unable to encrypt value due to: '' @ m))],
              thrown = cb (CbErr (Error (''Unable to encrypt value due to: '' @ m))) \<rparr>, w1)"
      by blast
    with st p show ?thesis
      by (auto simp: encryptAsync_run_def sync_calls_def later_calls_def returns_def)
  qed
qed

lemma encryptAsync_sync_silent:
  assumes "truthy input" and "truthy (js_or secret (defaultSecret this))"
  shows "sync_calls (encryptAsync_run P cb input secret (this, w)) = []"
proof -
  obtain ph pend this' w' where
    st: "encryptAsync P cb input secret (this, w) = (ph, pend, this', w')"
    by (cases "encryptAsync P cb input secret (this, w)") auto
  from encryptAsync_cases [OF st] assms have "calls ph = []" by auto
  with st show ?thesis
    by (simp add: encryptAsync_run_def sync_calls_def split: option.splits prod.splits)
qed

lemma js_get_field:
  "v \<noteq> JUndefined \<Longrightarrow> v \<noteq> JNull \<Longrightarrow> js_get v k = Inr (field v k)"
  by (cases v) (simp_all add: field_def)

lemma small_kdf_agree: "kdf_agree (small_platform r)"
  by (simp add: kdf_agree_def small_platform_def small_pbkdf2_def)

text \<open>
  With a receiver that is neither \<open>undefined\<close> nor \<open>null\<close>, where \<open>encrypt\<close> returns an
  envelope, \<open>encryptAsync\<close> calls back with an envelope of the same \<open>iv\<close>, \<open>salt\<close> and
  \<open>value\<close>, and the receiver's \<open>keyLength\<close>, \<open>iterations\<close> and \<open>context\<close>.
\<close>

lemma encryptAsync_bound_run:
  assumes recv: "pbkdf2_this P \<noteq> JUndefined" "pbkdf2_this P \<noteq> JNull"
    and agree: "kdf_agree P"
    and enc: "encrypt P input secret (this, w) = (Inr env, this', w')"
  shows "\<exists>rest. later_calls (encryptAsync_run P cb input secret (this, w)) =
           CbOk (JObj (lodash_defaults
             [(''cipher'', JStr CIPHER),
              (''keyDerivation'', JStr KEY_DERIVATION),
              (''keyLength'', field (pbkdf2_this P) ''keyLength''),
              (''iterations'', field (pbkdf2_this P) ''iterations''),
              (''iv'', field env ''iv''),
              (''salt'', field env ''salt''),
              (''value'', field env ''value'')]
             (field (pbkdf2_this P) ''context''))) # rest"
proof -
  let ?secret = "js_or secret (defaultSecret this)"
  let ?klen = "js_div P (keyLength this') 8"
  from enc obtain salt iv key c e1 c1 e2 w1 w2 where
    inp: "truthy input" and sec: "truthy ?secret"
    and this': "this' = legacy_keyLength P this"
    and rsalt: "randomBytes ?klen w = (Inr salt, w1)"
    and riv: "randomBytes (JNum 16) w1 = (Inr iv, w2)"
    and key: "pbkdf2Sync P ?secret salt (iterations this') ?klen = Inr key"
    and cre: "createCipheriv P CIPHER key iv = Inr c"
    and upd: "cipher_update P c input = Inr (e1, c1)"
    and fin: "cipher_final P c1 = Inr e2"
    and env: "env = JObj (lodash_defaults
            [(''cipher'', JStr CIPHER),
             (''keyDerivation'', JStr KEY_DERIVATION),
             (''keyLength'', keyLength this'),
             (''iterations'', iterations this'),
             (''iv'', JStr (toString_base64 P iv)),
             (''salt'', JStr (toString_base64 P salt)),
             (''value'', JStr (e1 @ e2))] (context' this'))"
    by (rule encrypt_Inr_elim)
  have "js_get env ''iv'' = Inr (JStr (toString_base64 P iv))"
    "js_get env ''salt'' = Inr (JStr (toString_base64 P salt))"
    "js_get env ''value'' = Inr (JStr (e1 @ e2))"
    unfolding env by (rule field_defaults_kept; simp)+
  then have f: "field env ''iv'' = JStr (toString_base64 P iv)"
    "field env ''salt'' = JStr (toString_base64 P salt)"
    "field env ''value'' = JStr (e1 @ e2)"
    by (simp_all add: field_def)
  let ?w3 = "log_event (EvPbkdf2 ?secret salt (iterations this') ?klen) w2"
  let ?pend = "\<lparr> e_outcome = Inr key, e_input = input, e_salt = salt, e_iv = iv \<rparr>"
  let ?X = "JObj (lodash_defaults
             [(''cipher'', JStr CIPHER),
              (''keyDerivation'', JStr KEY_DERIVATION),
              (''keyLength'', field (pbkdf2_this P) ''keyLength''),
              (''iterations'', field (pbkdf2_this P) ''iterations''),
              (''iv'', JStr (toString_base64 P iv)),
              (''salt'', JStr (toString_base64 P salt)),
              (''value'', JStr (e1 @ e2))]
             (field (pbkdf2_this P) ''context''))"
  from agree key have akey: "pbkdf2 P ?secret salt (iterations this') ?klen = KdfDone (Inr key)"
    unfolding kdf_agree_def by blast
  have st: "encryptAsync P cb input secret (this, w) = (returns, Some ?pend, this', ?w3)"
    using inp sec rsalt riv akey unfolding this'
    by (simp add: encryptAsync_def Let_def)
  have tr: "encryptAsync_try P cb ?pend key ?w3 =
      (invoke cb (CbOk ?X), log_event (EvCreateCipheriv key iv) ?w3)"
    using cre upd fin js_get_field [OF recv]
    by (simp add: encryptAsync_try_def Let_def)
  obtain later w4 where cbk: "encryptAsync_callback P cb ?pend ?w3 = (later, w4)"
    by (cases "encryptAsync_callback P cb ?pend ?w3") auto
  with tr have "\<exists>rest. calls later = CbOk ?X # rest"
    by (auto simp: encryptAsync_callback_def catch_to_callback_def Let_def invoke_def
          split: option.splits)
  with st cbk f show ?thesis
    by (simp add: encryptAsync_run_def later_calls_def)
qed

lemma example_envelope_object:
  "fst (encrypt (small_platform (JObj [(''ondone'', JNull)])) (JStr ''hello world'')
         (JStr ''correct-horse'') (Krypt JUndefined, world0)) =
     Inr (JObj [(''cipher'', JStr ''aes-256-cbc''), (''keyDerivation'', JStr ''pbkdf2''),
                (''keyLength'', JNum 256), (''iterations'', JNum 64000),
                (''iv'', JStr ''ghijklmnopqrstuv''),
                (''salt'', JStr ''abcdefghijklmnopqrstuvwxyzabcdef''),
                (''value'', JStr ''*hello world'')])"
  by code_simp

lemma example_envelope_toString:
  "fst (encrypt (small_platform JUndefined) (JStr ''hello world'') (JStr ''correct-horse'')
         (setContext (JObj [(''toString'', JStr ''x''), (''owner'', JStr ''alice'')])
            (Krypt JUndefined), world0)) =
     Inr (JObj [(''cipher'', JStr ''aes-256-cbc''), (''keyDerivation'', JStr ''pbkdf2''),
                (''keyLength'', JNum 256), (''iterations'', JNum 64000),
                (''iv'', JStr ''ghijklmnopqrstuv''),
                (''salt'', JStr ''abcdefghijklmnopqrstuvwxyzabcdef''),
                (''value'', JStr ''*hello world''),
                (''owner'', JStr ''alice'')])"
  by code_simp


section \<open>Round trip\<close>

text \<open>
  Claim C1. On a platform whose Base64, cipher and key derivation are sound, whenever
  \<open>encrypt\<close> returns an envelope for a plaintext string \<open>p\<close> and a secret, \<open>decrypt\<close>
  of that envelope with the same secret, in the session as \<open>encrypt\<close> left it, returns
  \<open>p\<close>. The secret may be any value, and then also the session's default secret;
  \<open>encrypt\<close> returns an envelope only for a non-empty plaintext and a non-empty secret.
\<close>

theorem encrypt_decrypt_roundtrip:
  assumes "base64_sound P" and "cipher_sound P" and "kdf_sound P"
    and "encrypt P (JStr p) secret (this, w) = (Inr env, this', w')"
  shows "fst (decrypt P env secret (this', wd)) = Inr p"
  using assms by (rule decrypt_after_encrypt)

theorem encrypt_decrypt_roundtrip_witness:
  "fst (encrypt (small_platform JUndefined) (JStr ''hello world'') (JStr ''correct-horse'')
         (Krypt JUndefined, world0)) =
     Inr (JObj [(''cipher'', JStr ''aes-256-cbc''), (''keyDerivation'', JStr ''pbkdf2''),
                (''keyLength'', JNum 256), (''iterations'', JNum 64000),
                (''iv'', JStr ''ghijklmnopqrstuv''),
                (''salt'', JStr ''abcdefghijklmnopqrstuvwxyzabcdef''),
                (''value'', JStr ''*hello world'')]) \<and>
   fst (decrypt (small_platform JUndefined)
         (JObj [(''cipher'', JStr ''aes-256-cbc''), (''keyDerivation'', JStr ''pbkdf2''),
                (''keyLength'', JNum 256), (''iterations'', JNum 64000),
                (''iv'', JStr ''ghijklmnopqrstuv''),
                (''salt'', JStr ''abcdefghijklmnopqrstuvwxyzabcdef''),
                (''value'', JStr ''*hello world'')])
         (JStr ''correct-horse'')
         (fst (snd (encrypt (small_platform JUndefined) (JStr ''hello world'')
                      (JStr ''correct-horse'') (Krypt JUndefined, world0))), world0))
     = Inr ''hello world''"
proof -
  let ?e = "encrypt (small_platform JUndefined) (JStr ''hello world'') (JStr ''correct-horse'')
         (Krypt JUndefined, world0)"
  have "?e = (fst ?e, fst (snd ?e), snd (snd ?e))" by simp
  with example_envelope obtain env where
    1: "?e = (Inr env, fst (snd ?e), snd (snd ?e))" and 2: "fst ?e = Inr env"
    by metis
  from encrypt_decrypt_roundtrip [OF small_base64_sound small_cipher_sound small_kdf_sound 1, of world0]
    2 example_envelope
  show ?thesis by simp
qed


section \<open>encryptAsync against encrypt\<close>

text \<open>
  Claim C2 does not hold of the code. In the default session, \<open>encrypt\<close> of
  \<open>"hello world"\<close> with \<open>"correct-horse"\<close> returns an envelope with \<open>keyLength = 256\<close>
  and \<open>iterations = 64000\<close>. With the same random bytes, \<open>encryptAsync\<close> delivers to its
  callback the wrapped TypeError when the key-derivation callback runs with \<open>this\<close>
  undefined, and, when it runs with some object of the platform as \<open>this\<close>, an envelope
  whose \<open>keyLength\<close> and \<open>iterations\<close> are \<open>undefined\<close>: the callback reads these fields,
  and the context, from its own receiver, which is not the session.
\<close>

theorem encryptAsync_envelope_differs:
  "fst (encrypt (small_platform JUndefined) (JStr ''hello world'') (JStr ''correct-horse'')
         (Krypt JUndefined, world0)) =
     Inr (JObj [(''cipher'', JStr ''aes-256-cbc''), (''keyDerivation'', JStr ''pbkdf2''),
                (''keyLength'', JNum 256), (''iterations'', JNum 64000),
                (''iv'', JStr ''ghijklmnopqrstuv''),
                (''salt'', JStr ''abcdefghijklmnopqrstuvwxyzabcdef''),
                (''value'', JStr ''*hello world'')]) \<and>
   later_calls (encryptAsync_run (small_platform JUndefined) quiet (JStr ''hello world'')
       (JStr ''correct-horse'') (Krypt JUndefined, world0)) =
     [CbErr (Error ''Unable to encrypt value due to: TypeError: Cannot read property 'keyLength' of undefined'')] \<and>
   later_calls (encryptAsync_run (small_platform (JObj [(''ondone'', JNull)])) quiet
       (JStr ''hello world'') (JStr ''correct-horse'') (Krypt JUndefined, world0)) =
     [CbOk (JObj [(''cipher'', JStr ''aes-256-cbc''), (''keyDerivation'', JStr ''pbkdf2''),
                  (''keyLength'', JUndefined), (''iterations'', JUndefined),
                  (''iv'', JStr ''ghijklmnopqrstuv''),
                  (''salt'', JStr ''abcdefghijklmnopqrstuvwxyzabcdef''),
                  (''value'', JStr ''*hello world'')])]"
  using example_envelope example_async_unbound(2) example_async_object by simp


section \<open>The receiver of the key-derivation callback\<close>

text \<open>
  Claim C3, as amended. For a truthy input and a truthy secret, \<open>encryptAsync\<close> never
  invokes its callback before it returns. The envelope is assembled in the key-derivation
  callback, which reads \<open>keyLength\<close>, \<open>iterations\<close> and \<open>context\<close> from its own receiver,
  not from the session. When the platform calls it with \<open>this\<close> \<open>undefined\<close> or \<open>null\<close>,
  no callback invocation carries an envelope, and if the initiating call returns, the read
  throws inside the \<open>try\<close> block and the callback is invoked exactly once, with the wrapped
  error \<open>Unable to encrypt value due to: ...\<close>. When the platform calls it with any other
  receiver, as Node does with its own request object, and \<open>encrypt\<close> returns an envelope
  for the same input, secret, session and random bytes, the callback is invoked with a
  result envelope: it has the \<open>iv\<close>, \<open>salt\<close> and \<open>value\<close> of the envelope of \<open>encrypt\<close>,
  and its \<open>keyLength\<close>, \<open>iterations\<close> and context are those of the receiver.
\<close>

theorem encryptAsync_receiver:
  assumes "r = encryptAsync_run P cb input secret (this, w)"
  shows "(truthy input \<longrightarrow> truthy (js_or secret (defaultSecret this)) \<longrightarrow> sync_calls r = []) \<and>
         (pbkdf2_this P = JUndefined \<or> pbkdf2_this P = JNull \<longrightarrow>
            (\<forall>c \<in> set (sync_calls r @ later_calls r). \<exists>e. c = CbErr e) \<and>
            (truthy input \<longrightarrow> truthy (js_or secret (defaultSecret this)) \<longrightarrow>
             thrown (fst r) = None \<longrightarrow>
               (\<exists>m. later_calls r = [CbErr (Error (''Unable to encrypt value due to: '' @ m))]))) \<and>
         (pbkdf2_this P \<noteq> JUndefined \<longrightarrow> pbkdf2_this P \<noteq> JNull \<longrightarrow> kdf_agree P \<longrightarrow>
            (\<forall>env this' w'. encrypt P input secret (this, w) = (Inr env, this', w') \<longrightarrow>
               (\<exists>rest. later_calls r =
                  CbOk (JObj (lodash_defaults
                    [(''cipher'', JStr CIPHER),
                     (''keyDerivation'', JStr KEY_DERIVATION),
                     (''keyLength'', field (pbkdf2_this P) ''keyLength''),
                     (''iterations'', field (pbkdf2_this P) ''iterations''),
                     (''iv'', field env ''iv''),
                     (''salt'', field env ''salt''),
                     (''value'', field env ''value'')]
                    (field (pbkdf2_this P) ''context''))) # rest)))"
proof (intro conjI impI allI)
  assume "truthy input" "truthy (js_or secret (defaultSecret this))"
  then show "sync_calls r = []"
    unfolding assms by (rule encryptAsync_sync_silent)
next
  assume u: "pbkdf2_this P = JUndefined \<or> pbkdf2_this P = JNull"
  from encryptAsync_unbound_run [OF u, of cb input secret this w]
  show "\<forall>c \<in> set (sync_calls r @ later_calls r). \<exists>e. c = CbErr e"
    unfolding assms by blast
next
  assume u: "pbkdf2_this P = JUndefined \<or> pbkdf2_this P = JNull"
    and "truthy input" "truthy (js_or secret (defaultSecret this))" "thrown (fst r) = None"
  with encryptAsync_unbound_run [OF u, of cb input secret this w]
  show "\<exists>m. later_calls r = [CbErr (Error (''Unable to encrypt value due to: '' @ m))]"
    unfolding assms by blast
next
  fix env this' w'
  assume "pbkdf2_this P \<noteq> JUndefined" "pbkdf2_this P \<noteq> JNull" "kdf_agree P"
    "encrypt P input secret (this, w) = (Inr env, this', w')"
  then show "\<exists>rest. later_calls r =
                  CbOk (JObj (lodash_defaults
                    [(''cipher'', JStr CIPHER),
                     (''keyDerivation'', JStr KEY_DERIVATION),
                     (''keyLength'', field (pbkdf2_this P) ''keyLength''),
                     (''iterations'', field (pbkdf2_this P) ''iterations''),
                     (''iv'', field env ''iv''),
                     (''salt'', field env ''salt''),
                     (''value'', field env ''value'')]
                    (field (pbkdf2_this P) ''context''))) # rest"
    unfolding assms by (rule encryptAsync_bound_run)
qed

theorem encryptAsync_receiver_witness:
  "sync_calls (encryptAsync_run (small_platform JUndefined) quiet (JStr ''hello world'')
       (JStr ''correct-horse'') (Krypt JUndefined, world0)) = [] \<and>
   (\<exists>m. later_calls (encryptAsync_run (small_platform JUndefined) quiet (JStr ''hello world'')
       (JStr ''correct-horse'') (Krypt JUndefined, world0)) =
       [CbErr (Error (''Unable to encrypt value due to: '' @ m))]) \<and>
   (\<exists>rest. later_calls (encryptAsync_run (small_platform (JObj [(''ondone'', JNull)])) quiet
       (JStr ''hello world'') (JStr ''correct-horse'') (Krypt JUndefined, world0)) =
       CbOk (JObj [(''cipher'', JStr ''aes-256-cbc''), (''keyDerivation'', JStr ''pbkdf2''),
                   (''keyLength'', JUndefined), (''iterations'', JUndefined),
                   (''iv'', JStr ''ghijklmnopqrstuv''),
                   (''salt'', JStr ''abcdefghijklmnopqrstuvwxyzabcdef''),
                   (''value'', JStr ''*hello world'')]) # rest)"
proof -
  let ?U = "small_platform JUndefined"
  let ?O = "small_platform (JObj [(''ondone'', JNull)])"
  let ?in = "JStr ''hello world''"
  let ?sec = "JStr ''correct-horse''"
  have s: "truthy ?in" "truthy (js_or ?sec (defaultSecret (Krypt JUndefined)))"
    by (simp_all add: js_or_def)
  have u: "pbkdf2_this ?U = JUndefined \<or> pbkdf2_this ?U = JNull"
    by (simp add: small_platform_def)
  from encryptAsync_receiver [OF refl, where P = ?U and cb = quiet and input = ?in
      and secret = ?sec and this = "Krypt JUndefined" and w = world0]
    s u example_async_unbound(1)
  have a: "sync_calls (encryptAsync_run ?U quiet ?in ?sec (Krypt JUndefined, world0)) = [] \<and>
    (\<exists>m. later_calls (encryptAsync_run ?U quiet ?in ?sec (Krypt JUndefined, world0)) =
       [CbErr (Error (''Unable to encrypt value due to: '' @ m))])"
    by blast
  let ?e = "encrypt ?O ?in ?sec (Krypt JUndefined, world0)"
  from example_envelope_object result_triple [of ?e] obtain env where
    1: "?e = (Inr env, fst (snd ?e), snd (snd ?e))" and 2: "fst ?e = Inr env"
    by metis
  from 2 example_envelope_object have env: "env =
     JObj [(''cipher'', JStr ''aes-256-cbc''), (''keyDerivation'', JStr ''pbkdf2''),
                (''keyLength'', JNum 256), (''iterations'', JNum 64000),
                (''iv'', JStr ''ghijklmnopqrstuv''),
                (''salt'', JStr ''abcdefghijklmnopqrstuvwxyzabcdef''),
                (''value'', JStr ''*hello world'')]"
    by simp
  have o: "pbkdf2_this ?O = JObj [(''ondone'', JNull)]"
    by (simp add: small_platform_def)
  have nn: "pbkdf2_this ?O \<noteq> JUndefined" "pbkdf2_this ?O \<noteq> JNull"
    by (simp_all add: o)
  from encryptAsync_receiver [OF refl, where P = ?O and cb = quiet and input = ?in
      and secret = ?sec and this = "Krypt JUndefined" and w = world0,
      THEN conjunct2, THEN conjunct2, rule_format, OF nn small_kdf_agree 1]
  have "\<exists>rest. later_calls (encryptAsync_run ?O quiet ?in ?sec (Krypt JUndefined, world0)) =
      CbOk (JObj (lodash_defaults
                    [(''cipher'', JStr CIPHER),
                     (''keyDerivation'', JStr KEY_DERIVATION),
                     (''keyLength'', field (pbkdf2_this ?O) ''keyLength''),
                     (''iterations'', field (pbkdf2_this ?O) ''iterations''),
                     (''iv'', field env ''iv''),
                     (''salt'', field env ''salt''),
                     (''value'', field env ''value'')]
                    (field (pbkdf2_this ?O) ''context''))) # rest" .
  then have b: "\<exists>rest. later_calls (encryptAsync_run ?O quiet ?in ?sec (Krypt JUndefined, world0)) =
       CbOk (JObj [(''cipher'', JStr ''aes-256-cbc''), (''keyDerivation'', JStr ''pbkdf2''),
                   (''keyLength'', JUndefined), (''iterations'', JUndefined),
                   (''iv'', JStr ''ghijklmnopqrstuv''),
                   (''salt'', JStr ''abcdefghijklmnopqrstuvwxyzabcdef''),
                   (''value'', JStr ''*hello world'')]) # rest"
    by (simp add: o env field_def CIPHER_def KEY_DERIVATION_def)
  from a b show ?thesis by blast
qed

text \<open>
  The claim as stated fails: called with an object of the platform as receiver, the
  key-derivation callback reads \<open>undefined\<close> where the claim has it throw, and
  \<open>encryptAsync\<close> hands its callback a result envelope and no error.
\<close>

theorem encryptAsync_delivers_envelope:
  "later_calls (encryptAsync_run (small_platform (JObj [(''ondone'', JNull)])) quiet
       (JStr ''hello world'') (JStr ''correct-horse'') (Krypt JUndefined, world0)) =
     [CbOk (JObj [(''cipher'', JStr ''aes-256-cbc''), (''keyDerivation'', JStr ''pbkdf2''),
                  (''keyLength'', JUndefined), (''iterations'', JUndefined),
                  (''iv'', JStr ''ghijklmnopqrstuv''),
                  (''salt'', JStr ''abcdefghijklmnopqrstuvwxyzabcdef''),
                  (''value'', JStr ''*hello world'')])]"
  by (rule example_async_object)


section \<open>The session configuration across operations\<close>

text \<open>
  Claim C4, as amended. \<open>decrypt\<close> and \<open>decryptAsync\<close> leave the session as it was.
  \<open>encrypt\<close> and \<open>encryptAsync\<close> leave \<open>iterations\<close>, \<open>defaultSecret\<close> and \<open>context\<close> as
  they were, and change \<open>keyLength\<close> in one case only: when the input and the secret pass
  validation and \<open>keyLength\<close> is the number 32, it becomes 256 in the session itself.
\<close>

theorem session_frame:
  "fst (snd (decrypt P input secret (this, w))) = this \<and>
   fst (snd (snd (decryptAsync_run P scb input secret (this, w)))) = this \<and>
   fst (snd (encrypt P input secret (this, w))) =
     (if truthy input \<and> truthy (js_or secret (defaultSecret this)) \<and> keyLength this = JNum 32
      then this\<lparr>keyLength := JNum 256\<rparr> else this) \<and>
   fst (snd (snd (encryptAsync_run P cb input secret (this, w)))) =
     (if truthy input \<and> truthy (js_or secret (defaultSecret this)) \<and> keyLength this = JNum 32
      then this\<lparr>keyLength := JNum 256\<rparr> else this)"
proof -
  have d: "fst (snd (decrypt P input secret (this, w))) = this"
    by (simp add: decrypt_def Let_def split: checked.splits sum.splits prod.splits)
  have da: "fst (snd (snd (decryptAsync_run P scb input secret (this, w)))) = this"
    by (simp add: decryptAsync_run_def decryptAsync_def Let_def
             split: checked.splits sum.splits prod.splits kdf_async.splits option.splits)
  have e: "fst (snd (encrypt P input secret (this, w))) =
     (if truthy input \<and> truthy (js_or secret (defaultSecret this)) \<and> keyLength this = JNum 32
      then this\<lparr>keyLength := JNum 256\<rparr> else this)"
    by (simp add: encrypt_def Let_def legacy_keyLength_eq split: sum.splits prod.splits)
  have ea: "fst (snd (snd (encryptAsync_run P cb input secret (this, w)))) =
     (if truthy input \<and> truthy (js_or secret (defaultSecret this)) \<and> keyLength this = JNum 32
      then this\<lparr>keyLength := JNum 256\<rparr> else this)"
    by (simp add: encryptAsync_run_def encryptAsync_def Let_def legacy_keyLength_eq
             split: sum.splits prod.splits kdf_async.splits option.splits)
  from d da e ea show ?thesis by simp
qed

theorem session_frame_witness:
  "fst (snd (decrypt (small_platform JUndefined) (JStr ''{}'') (JStr ''pw'')
       (setKeyLength (JNum 32) (Krypt JUndefined), world0)))
     = setKeyLength (JNum 32) (Krypt JUndefined) \<and>
   fst (snd (encrypt (small_platform JUndefined) (JStr ''hello'') (JStr ''pw'')
       (setKeyLength (JNum 32) (Krypt JUndefined), world0)))
     = setKeyLength (JNum 256) (Krypt JUndefined) \<and>
   fst (snd (encrypt (small_platform JUndefined) (JStr ''hello'') (JStr ''pw'')
       (setKeyLength (JNum 128) (Krypt JUndefined), world0)))
     = setKeyLength (JNum 128) (Krypt JUndefined)"
  using session_frame [of "small_platform JUndefined" "JStr ''{}''" "JStr ''pw''"
          "setKeyLength (JNum 32) (Krypt JUndefined)" world0]
        session_frame [of "small_platform JUndefined" "JStr ''hello''" "JStr ''pw''"
          "setKeyLength (JNum 32) (Krypt JUndefined)" world0]
        session_frame [of "small_platform JUndefined" "JStr ''hello''" "JStr ''pw''"
          "setKeyLength (JNum 128) (Krypt JUndefined)" world0]
  by (simp add: setKeyLength_def Krypt_def js_or_def)

text \<open>
  The claim as stated fails: on a session configured with \<open>keyLength = 32\<close>, a call to
  \<open>encrypt\<close> leaves the session with \<open>keyLength = 256\<close>.
\<close>

theorem encrypt_mutates_keyLength:
  "keyLength (setKeyLength (JNum 32) (Krypt JUndefined)) = JNum 32 \<and>
   keyLength (fst (snd (encrypt (small_platform JUndefined) (JStr ''hello'') (JStr ''pw'')
       (setKeyLength (JNum 32) (Krypt JUndefined), world0)))) = JNum 256"
  by (simp add: encrypt_def Let_def legacy_keyLength_eq setKeyLength_def Krypt_def js_or_def
           split: sum.splits prod.splits)


section \<open>When the asynchronous operations call back\<close>





section \<open>The legacy key length\<close>




section \<open>Validation of the input of decrypt\<close>

text \<open>
  Claim C7 does not hold of the code in one case. A JSON text that parses to \<open>null\<close>
  passes the checks on the input and on the secret and is parsed without error; the
  check of \<open>iv\<close>, \<open>salt\<close> and \<open>value\<close> then reads a property of \<open>null\<close>, and what
  \<open>decrypt\<close> raises is that TypeError, not the error of the validation. \<open>decryptAsync\<close>
  throws it to its caller and never invokes the callback. No primitive has been invoked:
  the world is as it was.
\<close>

theorem decrypt_json_null:
  assumes "JSON_parse P (JStr ''null'') = Inr JNull"
    and "truthy (js_or secret (defaultSecret this))"
  shows "decrypt P (JStr ''null'') secret (this, w) =
           (Inl (TypeError ''Cannot read property 'iv' of null''), this, w) \<and>
         decryptAsync P cb (JStr ''null'') secret (this, w) =
           (throws (TypeError ''Cannot read property 'iv' of null''), None, this, w)"
proof -
  from assms have "decrypt_validate P (JStr ''null'') secret this =
      Threw (TypeError ''Cannot read property 'iv' of null'')"
    by (simp add: decrypt_validate_def Let_def)
  then show ?thesis
    by (simp add: decrypt_def decryptAsync_def Let_def)
qed

theorem decrypt_json_null_witness:
  "fst (decrypt (small_platform JUndefined) (JStr ''null'') (JStr ''secret'')
          (Krypt JUndefined, world0)) =
     Inl (TypeError ''Cannot read property 'iv' of null'') \<and>
   fst (decryptAsync (small_platform JUndefined) quiet (JStr ''null'') (JStr ''secret'')
          (Krypt JUndefined, world0)) =
     \<lparr> calls = [], thrown = Some (TypeError ''Cannot read property 'iv' of null'') \<rparr>"
proof -
  have p: "JSON_parse (small_platform JUndefined) (JStr ''null'') = Inr JNull"
    by (simp add: small_platform_def small_JSON_parse_def)
  have s: "truthy (js_or (JStr ''secret'') (defaultSecret (Krypt JUndefined)))"
    by (simp add: js_or_def)
  from decrypt_json_null [OF p s, of world0 quiet] show ?thesis
    by (simp add: throws_def)
qed


section \<open>The context merger\<close>

text \<open>
  Claim C8, as amended. For every context object, the seven core fields of the envelope
  that \<open>encrypt\<close> returns are those of the run with an empty context, which succeeds with
  the same session and the same world: \<open>cipher\<close> and \<open>keyDerivation\<close> are the constants,
  \<open>keyLength\<close> and \<open>iterations\<close> the session's values after the legacy check. Every
  context key that is neither the name of a core field nor the name of a property that
  objects inherit from \<open>Object.prototype\<close> is in the envelope, with the context's value.
  Under an inherited name the envelope keeps what it inherits, whatever the context holds
  there. The key derivation is assumed to take a number of iterations only.
\<close>

theorem context_merge:
  assumes "kdf_sound P"
    and "encrypt P input secret (this, w) = (Inr env, this', w')"
    and "context' this = JObj ctx" and "distinct (map fst ctx)"
  shows "(\<exists>env0. encrypt P input secret (this\<lparr>context' := JObj []\<rparr>, w)
                  = (Inr env0, this'\<lparr>context' := JObj []\<rparr>, w') \<and>
           (\<forall>k \<in> set core_fields. field env k = field env0 k) \<and>
           field env0 ''cipher'' = JStr ''aes-256-cbc'' \<and>
           field env0 ''keyDerivation'' = JStr ''pbkdf2'' \<and>
           field env0 ''keyLength'' = keyLength this' \<and>
           field env0 ''iterations'' = iterations this') \<and>
         (\<forall>k v. map_of ctx k = Some v \<longrightarrow> k \<notin> set core_fields \<longrightarrow>
                k \<notin> set object_prototype_keys \<longrightarrow> field env k = v) \<and>
         (\<forall>k \<in> set object_prototype_keys. field env k = JBuiltin k)"
  using context_merge_core [OF assms(1,2)] context_merge_extra [OF assms(2,3,4)]
    context_merge_inherited [OF assms(2)]
  by blast

theorem context_merge_witness:
  "\<exists>env. fst (encrypt (small_platform JUndefined) (JStr ''hello world'') (JStr ''correct-horse'')
         (setContext (JObj [(''keyLength'', JNum 999), (''owner'', JStr ''alice'')])
            (Krypt JUndefined), world0)) = Inr env \<and>
         field env ''keyLength'' = JNum 256 \<and> field env ''owner'' = JStr ''alice''"
proof -
  let ?P = "small_platform JUndefined"
  let ?ctx = "[(''keyLength'', JNum 999), (''owner'', JStr ''alice'')]"
  let ?s = "setContext (JObj ?ctx) (Krypt JUndefined)"
  let ?e = "encrypt ?P (JStr ''hello world'') (JStr ''correct-horse'') (?s, world0)"
  from example_envelope_context result_triple [of ?e] obtain env where
    1: "?e = (Inr env, fst (snd ?e), snd (snd ?e))" and 2: "fst ?e = Inr env"
    by metis
  have c: "context' ?s = JObj ?ctx" by (simp add: setContext_def)
  have d: "distinct (map fst ?ctx)" by simp
  from context_merge [OF small_kdf_sound 1 c d]
  have "field env ''owner'' = JStr ''alice''"
    by (simp add: core_fields_def object_prototype_keys_def)
  moreover from 2 example_envelope_context have "field env ''keyLength'' = JNum 256"
    by (auto simp: field_def)
  ultimately show ?thesis using 2 by simp
qed

text \<open>
  The claim as stated fails: \<open>toString\<close> is not the name of a core field, and with the
  context \<open>{toString: "x", owner: "alice"}\<close> the envelope gets \<open>owner\<close> but no property
  \<open>toString\<close> of its own; a read of \<open>toString\<close> gives the inherited function, not \<open>"x"\<close>.
\<close>

theorem context_inherited_name_not_merged:
  "fst (encrypt (small_platform JUndefined) (JStr ''hello world'') (JStr ''correct-horse'')
         (setContext (JObj [(''toString'', JStr ''x''), (''owner'', JStr ''alice'')])
            (Krypt JUndefined), world0)) =
     Inr (JObj [(''cipher'', JStr ''aes-256-cbc''), (''keyDerivation'', JStr ''pbkdf2''),
                (''keyLength'', JNum 256), (''iterations'', JNum 64000),
                (''iv'', JStr ''ghijklmnopqrstuv''),
                (''salt'', JStr ''abcdefghijklmnopqrstuvwxyzabcdef''),
                (''value'', JStr ''*hello world''),
                (''owner'', JStr ''alice'')]) \<and>
   field (JObj [(''cipher'', JStr ''aes-256-cbc''), (''keyDerivation'', JStr ''pbkdf2''),
                (''keyLength'', JNum 256), (''iterations'', JNum 64000),
                (''iv'', JStr ''ghijklmnopqrstuv''),
                (''salt'', JStr ''abcdefghijklmnopqrstuvwxyzabcdef''),
                (''value'', JStr ''*hello world''),
                (''owner'', JStr ''alice'')]) ''toString'' = JBuiltin ''toString''"
  using example_envelope_toString
  by (simp add: field_def inherited_def object_prototype_keys_def)


section \<open>The parameters of decrypt\<close>





section \<open>The end-to-end example\<close>

text \<open>
  Claim C10. On a platform whose primitives are sound and accept well-formed arguments,
  in the default session \<open>encrypt("hello world", "correct-horse")\<close> returns an envelope
  with \<open>cipher = "aes-256-cbc"\<close>, \<open>keyDerivation = "pbkdf2"\<close>, \<open>keyLength = 256\<close> and
  \<open>iterations = 64000\<close>, whose \<open>iv\<close> decodes to 16 bytes and whose \<open>salt\<close> decodes to
  \<open>256 / 8\<close> bytes, with a non-empty \<open>value\<close>; \<open>decrypt\<close> of that envelope with
  \<open>"correct-horse"\<close> returns \<open>"hello world"\<close>.
\<close>

theorem end_to_end_example:
  assumes b64: "base64_sound P" and ciph: "cipher_sound P" and kdf: "kdf_sound P"
    and tot: "crypto_total P"
  shows "\<exists>env this' w' iv salt v.
           encrypt P (JStr ''hello world'') (JStr ''correct-horse'') (Krypt JUndefined, w)
             = (Inr env, this', w') \<and>
           field env ''cipher'' = JStr ''aes-256-cbc'' \<and>
           field env ''keyDerivation'' = JStr ''pbkdf2'' \<and>
           field env ''keyLength'' = JNum 256 \<and>
           field env ''iterations'' = JNum 64000 \<and>
           Buffer_base64 P (field env ''iv'') = Inr iv \<and> length iv = 16 \<and>
           Buffer_base64 P (field env ''salt'') = Inr salt \<and> length salt = 256 div 8 \<and>
           field env ''value'' = JStr v \<and> v \<noteq> [] \<and>
           fst (decrypt P env (JStr ''correct-horse'') (this', w')) = Inr ''hello world''"
proof -
  let ?K = "Krypt JUndefined"
  let ?sec = "JStr ''correct-horse''"
  have leg: "legacy_keyLength P ?K = ?K"
    by (simp add: Krypt_default legacy_keyLength_eq)
  have klen: "js_div P (keyLength ?K) 8 = JNum 32"
    by (simp add: Krypt_default js_div_def)
  have its: "iterations ?K = JNum 64000" and ctx: "context' ?K = JObj []"
    and kl: "keyLength ?K = JNum 256" and ds: "js_or ?sec (defaultSecret ?K) = ?sec"
    by (simp_all add: Krypt_default js_or_def)
  from randomBytes_numeral [of 32 w] obtain salt w1 where
    rs: "randomBytes (JNum 32) w = (Inr salt, w1)" and ls: "length salt = 32" by auto
  from randomBytes_numeral [of 16 w1] obtain iv w2 where
    ri: "randomBytes (JNum 16) w1 = (Inr iv, w2)" and li: "length iv = 16" by auto
  from tot have "\<forall>s salt i n. s \<noteq> [] \<longrightarrow> 0 < i \<longrightarrow>
        (\<exists>key. pbkdf2Sync P (JStr s) salt (JNum (of_nat i)) (JNum (of_nat n)) = Inr key)"
    unfolding crypto_total_def by blast
  from this [rule_format, of "''correct-horse''" 64000 salt 32]
  have "\<exists>key. pbkdf2Sync P ?sec salt (JNum 64000) (JNum 32) = Inr key"
    by simp
  then obtain key where key: "pbkdf2Sync P ?sec salt (JNum 64000) (JNum 32) = Inr key"
    by auto
  from kdf key have lk: "length key = 32"
    unfolding kdf_sound_def by fastforce
  from tot lk li obtain c where cre: "createCipheriv P CIPHER key iv = Inr c"
    unfolding crypto_total_def by blast
  from tot obtain e1 c1 where upd: "cipher_update P c (JStr ''hello world'') = Inr (e1, c1)"
    unfolding crypto_total_def by blast
  from tot obtain e2 where fin: "cipher_final P c1 = Inr e2"
    unfolding crypto_total_def by blast
  let ?env = "JObj [(''cipher'', JStr CIPHER),
             (''keyDerivation'', JStr KEY_DERIVATION),
             (''keyLength'', JNum 256),
             (''iterations'', JNum 64000),
             (''iv'', JStr (toString_base64 P iv)),
             (''salt'', JStr (toString_base64 P salt)),
             (''value'', JStr (e1 @ e2))]"
  let ?w' = "log_event (EvCreateCipheriv key iv)
        (log_event (EvPbkdf2 ?sec salt (JNum 64000) (JNum 32)) w2)"
  have enc: "encrypt P (JStr ''hello world'') ?sec (?K, w) = (Inr ?env, ?K, ?w')"
    using leg klen its ctx kl ds rs ri key cre upd fin
    by (simp add: encrypt_def encrypt_try_def Let_def)
  from ciph cre upd fin have ne: "e1 @ e2 \<noteq> []"
    unfolding cipher_sound_def by blast
  have rt: "fst (decrypt P ?env ?sec (?K, ?w')) = Inr ''hello world''"
    using b64 ciph kdf enc by (rule decrypt_after_encrypt)
  from b64 have dec: "Buffer_base64 P (JStr (toString_base64 P iv)) = Inr iv"
    "Buffer_base64 P (JStr (toString_base64 P salt)) = Inr salt"
    unfolding base64_sound_def by simp_all
  have "field ?env ''cipher'' = JStr ''aes-256-cbc''"
    "field ?env ''keyDerivation'' = JStr ''pbkdf2''"
    "field ?env ''keyLength'' = JNum 256"
    "field ?env ''iterations'' = JNum 64000"
    "field ?env ''iv'' = JStr (toString_base64 P iv)"
    "field ?env ''salt'' = JStr (toString_base64 P salt)"
    "field ?env ''value'' = JStr (e1 @ e2)"
    by (simp_all add: field_def CIPHER_def KEY_DERIVATION_def)
  with enc rt dec ne ls li show ?thesis
    by (intro exI [of _ ?env] exI [of _ ?K] exI [of _ ?w'] exI [of _ iv] exI [of _ salt]
          exI [of _ "e1 @ e2"]) simp
qed

theorem end_to_end_example_witness:
  "fst (encrypt (small_platform JUndefined) (JStr ''hello world'') (JStr ''correct-horse'')
         (Krypt JUndefined, world0)) =
     Inr (JObj [(''cipher'', JStr ''aes-256-cbc''), (''keyDerivation'', JStr ''pbkdf2''),
                (''keyLength'', JNum 256), (''iterations'', JNum 64000),
                (''iv'', JStr ''ghijklmnopqrstuv''),
                (''salt'', JStr ''abcdefghijklmnopqrstuvwxyzabcdef''),
                (''value'', JStr ''*hello world'')]) \<and>
   fst (decrypt (small_platform JUndefined)
         (JObj [(''cipher'', JStr ''aes-256-cbc''), (''keyDerivation'', JStr ''pbkdf2''),
                (''keyLength'', JNum 256), (''iterations'', JNum 64000),
                (''iv'', JStr ''ghijklmnopqrstuv''),
                (''salt'', JStr ''abcdefghijklmnopqrstuvwxyzabcdef''),
                (''value'', JStr ''*hello world'')])
         (JStr ''correct-horse'')
         (snd (encrypt (small_platform JUndefined) (JStr ''hello world'')
                 (JStr ''correct-horse'') (Krypt JUndefined, world0))))
     = Inr ''hello world''"
proof -
  from end_to_end_example [OF small_base64_sound small_cipher_sound small_kdf_sound
      small_crypto_total, of JUndefined world0]
  obtain env this' w' where
    enc: "encrypt (small_platform JUndefined) (JStr ''hello world'') (JStr ''correct-horse'')
            (Krypt JUndefined, world0) = (Inr env, this', w')"
    and dec: "fst (decrypt (small_platform JUndefined) env (JStr ''correct-horse'') (this', w'))
            = Inr ''hello world''"
    by blast
  from enc example_envelope dec show ?thesis by simp
qed

end
